theory Spec2Isabelle
  imports Main
begin

section \<open>JavaScript values and strings\<close>

text \<open>
  A proxy reference in \<^verbatim>\<open>server.js\<close> is a string, \<^verbatim>\<open>null\<close> (what
  \<^verbatim>\<open>getNextProxy\<close> and \<^verbatim>\<open>getProxyForDomain\<close> return for "nothing") or
  \<^verbatim>\<open>undefined\<close> (what an array read past the end gives). Strings are lists of
  code units below 256.
\<close>

datatype js_value = Null | Undefined | Str string

text \<open>Truthiness, as \<^verbatim>\<open>||\<close>, \<^verbatim>\<open>Boolean\<close> and \<^verbatim>\<open>if\<close> read it.\<close>

fun js_truthy :: "js_value \<Rightarrow> bool" where
  "js_truthy Null = False"
| "js_truthy Undefined = False"
| "js_truthy (Str s) = (s \<noteq> [])"

text \<open>\<^verbatim>\<open>xs[i]\<close>: an out-of-range read is \<^verbatim>\<open>undefined\<close>, it does not throw.\<close>

definition js_index :: "string list \<Rightarrow> nat \<Rightarrow> js_value" where
  "js_index xs i = (if i < length xs then Str (xs ! i) else Undefined)"

text \<open>\<^verbatim>\<open>s.split(c)\<close> for a one-character separator: always at least one field.\<close>

fun js_split :: "char \<Rightarrow> string \<Rightarrow> string list" where
  "js_split c [] = [[]]"
| "js_split c (x # xs) =
     (if x = c then [] # js_split c xs
      else (case js_split c xs of
              [] \<Rightarrow> [[x]]
            | w # ws \<Rightarrow> (x # w) # ws))"

text \<open>The white space \<^verbatim>\<open>trim\<close> strips, among the code units below 256.\<close>

definition js_whitespace :: "char \<Rightarrow> bool" where
  "js_whitespace c =
     (c \<in> set [CHR 0x09, CHR 0x0A, CHR 0x0B, CHR 0x0C, CHR 0x0D, CHR 0x20, CHR 0xA0])"

definition js_trim :: "string \<Rightarrow> string" where
  "js_trim s = rev (dropWhile js_whitespace (rev (dropWhile js_whitespace s)))"

text \<open>\<^verbatim>\<open>s.indexOf(t) !== -1\<close>.\<close>

fun js_includes :: "string \<Rightarrow> string \<Rightarrow> bool" where
  "js_includes t [] = (t = [])"
| "js_includes t (x # xs) = (take (length t) (x # xs) = t \<or> js_includes t xs)"

text \<open>The outcome of an awaited promise: a value, or a rejection with the error's message.\<close>

datatype 'a settled = Fulfilled 'a | Rejected string

section \<open>Configuration and the URL parser\<close>

text \<open>
  The constants read from the environment at the top of \<^verbatim>\<open>server.js\<close>, as integers
  and strings (a retry count or a TTL that is not a finite integer is not covered), and
  Node's \<^verbatim>\<open>URL\<close> constructor: \<open>URL_parse\<close> is \<open>None\<close> where \<^verbatim>\<open>new URL(s)\<close>
  throws \<^verbatim>\<open>TypeError: Invalid URL\<close>.
\<close>

record URL =
  protocol :: string
  hostname :: string
  port :: string
  href :: string

record env =
  MAX_RETRIES :: int
  PROXY_DOMAIN_CACHE_TTL :: int
  PROXY_TYPE :: string
  URL_parse :: "string \<Rightarrow> URL option"

text \<open>
  \<^verbatim>\<open>new URL(v)\<close> on a proxy reference. \<^verbatim>\<open>null\<close> and \<^verbatim>\<open>undefined\<close> are
  converted to the strings "null" and "undefined", which have no scheme: the constructor
  throws.
\<close>

definition new_URL :: "env \<Rightarrow> js_value \<Rightarrow> URL option" where
  "new_URL e v = (case v of Str s \<Rightarrow> URL_parse e s | Null \<Rightarrow> None | Undefined \<Rightarrow> None)"

section \<open>ProxyManager\<close>

record mapping =
  proxy :: js_value
  timestamp :: int

record ProxyManager =
  proxies :: "string list"
  index :: nat
  domainCache :: "string \<rightharpoonup> mapping"

definition ProxyManager_new :: ProxyManager where
  "ProxyManager_new = \<lparr>proxies = [], index = 0, domainCache = Map.empty\<rparr>"

subsection \<open>refreshProxies\<close>

text \<open>
  What \<^verbatim>\<open>axios.get(PROXY_LIST_URL)\<close> resolves with: a status and \<^verbatim>\<open>response.data\<close>,
  the body. It is a string unless the default response transform could parse it as JSON;
  then it is some other value, of which only the truthiness matters here (it has no
  \<^verbatim>\<open>split\<close>). A status outside 2xx, like a network error, rejects the promise.
\<close>

datatype response_data = Text string | Parsed bool

record list_response =
  status :: nat
  data :: response_data

fun data_truthy :: "response_data \<Rightarrow> bool" where
  "data_truthy (Text s) = (s \<noteq> [])"
| "data_truthy (Parsed b) = b"

text \<open>The callback of \<^verbatim>\<open>lines.map\<close>.\<close>

definition proxy_of_line :: "string \<Rightarrow> string \<Rightarrow> js_value" where
  "proxy_of_line ptype line =
     (let parts = js_split (CHR '':'') line
      in if 2 \<le> length parts
         then Str (ptype @ ''://'' @ parts ! 0 @ '':'' @ parts ! 1)
         else Null)"

text \<open>\<^verbatim>\<open>.filter(Boolean)\<close> on the mapped lines.\<close>

definition filter_Boolean :: "js_value list \<Rightarrow> string list" where
  "filter_Boolean vs =
     List.map_filter (\<lambda>v. case v of Str s \<Rightarrow> (if s = [] then None else Some s)
                               | Null \<Rightarrow> None
                               | Undefined \<Rightarrow> None) vs"

definition parse_proxy_list :: "string \<Rightarrow> string \<Rightarrow> string list" where
  "parse_proxy_list ptype body =
     filter_Boolean
       (map (proxy_of_line ptype)
          (filter (\<lambda>line. js_trim line \<noteq> []) (js_split (CHR 0x0A) body)))"

text \<open>The body of the \<^verbatim>\<open>try\<close> block: \<open>Inl\<close> is a thrown error's message.\<close>

definition refresh_try :: "env \<Rightarrow> list_response settled \<Rightarrow> ProxyManager \<Rightarrow> string + ProxyManager" where
  "refresh_try e fetched pm =
     (case fetched of
        Rejected msg \<Rightarrow> Inl msg
      | Fulfilled response \<Rightarrow>
          if status response = 200 \<and> data_truthy (data response)
          then (case data response of
                  Text body \<Rightarrow> Inr (pm\<lparr>proxies := parse_proxy_list (PROXY_TYPE e) body\<rparr>)
                | Parsed b \<Rightarrow> Inl ''response.data.split is not a function'')
          else Inr pm)"

text \<open>The \<^verbatim>\<open>catch\<close> only logs.\<close>

definition refreshProxies :: "env \<Rightarrow> list_response settled \<Rightarrow> ProxyManager \<Rightarrow> ProxyManager" where
  "refreshProxies e fetched pm =
     (case refresh_try e fetched pm of Inl msg \<Rightarrow> pm | Inr pm' \<Rightarrow> pm')"

subsection \<open>Rotation and the domain cache\<close>

definition getNextProxy :: "ProxyManager \<Rightarrow> js_value \<times> ProxyManager" where
  "getNextProxy pm =
     (if length (proxies pm) = 0 then (Null, pm)
      else (js_index (proxies pm) (index pm),
            pm\<lparr>index := (index pm + 1) mod length (proxies pm)\<rparr>))"

text \<open>\<open>now\<close> is the reading of \<^verbatim>\<open>Date.now()\<close>.\<close>

definition getProxyForDomain :: "env \<Rightarrow> int \<Rightarrow> string \<Rightarrow> ProxyManager \<Rightarrow> js_value \<times> ProxyManager" where
  "getProxyForDomain e now domain pm =
     (case domainCache pm domain of
        Some m \<Rightarrow>
          if now - timestamp m < PROXY_DOMAIN_CACHE_TTL e then (proxy m, pm)
          else (Null, pm\<lparr>domainCache := (domainCache pm)(domain := None)\<rparr>)
      | None \<Rightarrow> (Null, pm\<lparr>domainCache := (domainCache pm)(domain := None)\<rparr>))"

definition setDomainForDomain :: "int \<Rightarrow> string \<Rightarrow> js_value \<Rightarrow> ProxyManager \<Rightarrow> ProxyManager" where
  "setDomainForDomain now domain p pm =
     pm\<lparr>domainCache := (domainCache pm)(domain \<mapsto> \<lparr>proxy = p, timestamp = now\<rparr>)\<rparr>"

definition removeDomainMapping :: "string \<Rightarrow> ProxyManager \<Rightarrow> ProxyManager" where
  "removeDomainMapping domain pm = pm\<lparr>domainCache := (domainCache pm)(domain := None)\<rparr>"

definition flushDomainCache :: "ProxyManager \<Rightarrow> ProxyManager" where
  "flushDomainCache pm = pm\<lparr>domainCache := Map.empty\<rparr>"

section \<open>Candidate selection\<close>

text \<open>
  Both handlers pick the candidate the same way: on attempt 0
  \<^verbatim>\<open>getProxyForDomain(domain) || getNextProxy()\<close>, later \<^verbatim>\<open>getNextProxy()\<close>.
  The right operand of \<^verbatim>\<open>||\<close> is evaluated only when the left one is falsy.
\<close>

definition pick_proxy :: "env \<Rightarrow> int \<Rightarrow> string \<Rightarrow> nat \<Rightarrow> ProxyManager \<Rightarrow> js_value \<times> ProxyManager" where
  "pick_proxy e now domain attempt pm =
     (if attempt = 0
      then (let (cached, pm1) = getProxyForDomain e now domain pm
            in if js_truthy cached then (cached, pm1) else getNextProxy pm1)
      else getNextProxy pm)"

section \<open>getTunnelAgent\<close>

datatype agent =
    httpOverHttp string string
  | httpOverHttps string string
  | httpsOverHttp string string
  | httpsOverHttps string string

text \<open>\<open>Inl\<close> is the message of the error thrown; \<open>Inr None\<close> is \<^verbatim>\<open>undefined\<close>.\<close>

definition getTunnelAgent :: "env \<Rightarrow> string \<Rightarrow> js_value \<Rightarrow> string + agent option" where
  "getTunnelAgent e targetUrl proxyUrl =
     (case URL_parse e targetUrl of
        None \<Rightarrow> Inl ''Invalid URL''
      | Some parsedTarget \<Rightarrow>
          (case new_URL e proxyUrl of
             None \<Rightarrow> Inl ''Invalid URL''
           | Some parsedProxy \<Rightarrow>
               Inr (if protocol parsedTarget = ''http:''
                    then (if PROXY_TYPE e = ''http''
                          then Some (httpOverHttp (hostname parsedProxy) (port parsedProxy))
                          else Some (httpOverHttps (hostname parsedProxy) (port parsedProxy)))
                    else if protocol parsedTarget = ''https:''
                    then (if PROXY_TYPE e = ''http''
                          then Some (httpsOverHttp (hostname parsedProxy) (port parsedProxy))
                          else Some (httpsOverHttps (hostname parsedProxy) (port parsedProxy)))
                    else None)))"

section \<open>requestHandler\<close>

text \<open>
  The handler is suspended at \<^verbatim>\<open>await axios(...)\<close>. Until it resumes, other tasks
  run: other requests, the refresh timer and the flush timer, each calling methods of the
  one shared \<^verbatim>\<open>proxyManager\<close>. The method, the sanitised headers and the body of the
  request go into the call to axios and nowhere else; how that call settles is an input
  of the model. What happens to the response stream after the head is written (the
  \<^verbatim>\<open>'error'\<close> listener that ends \<^verbatim>\<open>res\<close>) is not followed.
\<close>

datatype pm_op =
    Refresh "list_response settled"
  | NextProxy
  | Lookup int string
  | Record int string js_value
  | Remove string
  | Flush

fun apply_op :: "env \<Rightarrow> pm_op \<Rightarrow> ProxyManager \<Rightarrow> ProxyManager" where
  "apply_op e (Refresh fetched) pm = refreshProxies e fetched pm"
| "apply_op e NextProxy pm = snd (getNextProxy pm)"
| "apply_op e (Lookup now domain) pm = snd (getProxyForDomain e now domain pm)"
| "apply_op e (Record now domain p) pm = setDomainForDomain now domain p pm"
| "apply_op e (Remove domain) pm = removeDomainMapping domain pm"
| "apply_op e Flush pm = flushDomainCache pm"

fun apply_ops :: "env \<Rightarrow> pm_op list \<Rightarrow> ProxyManager \<Rightarrow> ProxyManager" where
  "apply_ops e [] pm = pm"
| "apply_ops e (x # xs) pm = apply_ops e xs (apply_op e x pm)"

record request =
  url :: string

record upstream_response =
  up_status :: nat
  up_headers :: "(string \<times> string) list"

text \<open>
  What the world does during one pass of the loop: the clock when the candidate is
  picked, what the other tasks do while the handler awaits, how the call to axios
  settles, and the clock when the handler goes on (in the \<^verbatim>\<open>catch\<close> block or after
  the \<^verbatim>\<open>await\<close>). Every awaited call settles: axios is given a timeout.
\<close>

record attempt_script =
  picked_at :: int
  meanwhile :: "pm_op list"
  settles :: "upstream_response settled"
  resumed_at :: int

datatype body = Plain string | Json "(string \<times> string) list"

datatype res_event =
    WriteHead nat "(string \<times> string) list"
  | End body
  | PipeUpstream

text \<open>
  The \<^verbatim>\<open>catch\<close> block of the loop. \<^verbatim>\<open>&&\<close> evaluates the lookup only on attempt 0,
  and \<^verbatim>\<open>===\<close> compares the value looked up with the candidate that failed.
\<close>

definition catch_attempt :: "env \<Rightarrow> int \<Rightarrow> string \<Rightarrow> nat \<Rightarrow> js_value \<Rightarrow> ProxyManager \<Rightarrow> ProxyManager" where
  "catch_attempt e now domain attempt proxyUrl pm =
     (if attempt = 0
      then (let (cached, pm1) = getProxyForDomain e now domain pm
            in if cached = proxyUrl then removeDomainMapping domain pm1 else pm1)
      else pm)"

datatype pass = Returned "res_event list" | Caught string

text \<open>
  One pass of the \<^verbatim>\<open>while\<close> loop. \<^verbatim>\<open>getTunnelAgent\<close> throws inside the
  \<^verbatim>\<open>try\<close>, before anything is awaited: then no other task runs in between.
\<close>

definition attempt_once :: "env \<Rightarrow> URL \<Rightarrow> attempt_script \<Rightarrow> nat \<Rightarrow> ProxyManager \<Rightarrow> js_value \<times> pass \<times> ProxyManager" where
  "attempt_once e targetUrl sc attempt pm =
     (let (proxyUrl, pm1) = pick_proxy e (picked_at sc) (hostname targetUrl) attempt pm
      in case getTunnelAgent e (href targetUrl) proxyUrl of
           Inl msg \<Rightarrow>
             (proxyUrl, Caught msg,
              catch_attempt e (resumed_at sc) (hostname targetUrl) attempt proxyUrl pm1)
         | Inr tunnelAgent \<Rightarrow>
             (let pm2 = apply_ops e (meanwhile sc) pm1
              in case settles sc of
                   Fulfilled r \<Rightarrow>
                     (proxyUrl,
                      Returned [WriteHead (up_status r) (up_headers r), PipeUpstream],
                      setDomainForDomain (resumed_at sc) (hostname targetUrl) proxyUrl pm2)
                 | Rejected msg \<Rightarrow>
                     (proxyUrl, Caught msg,
                      catch_attempt e (resumed_at sc) (hostname targetUrl) attempt proxyUrl pm2)))"

text \<open>
  What a run of the handler leaves: the calls on \<^verbatim>\<open>res\<close>, the final value of the
  counter \<^verbatim>\<open>attempt\<close>, the candidates the passes logged, and the proxy manager.
\<close>

record handled =
  response :: "res_event list"
  attempts :: nat
  tried :: "js_value list"
  manager :: ProxyManager

function retry_loop :: "env \<Rightarrow> URL \<Rightarrow> (nat \<Rightarrow> attempt_script) \<Rightarrow> nat \<Rightarrow> string option \<Rightarrow> js_value list \<Rightarrow> ProxyManager \<Rightarrow> handled" where
  "retry_loop e targetUrl script attempt lastError log pm =
     (if int attempt < MAX_RETRIES e
      then (let (proxyUrl, outcome, pm') = attempt_once e targetUrl (script attempt) attempt pm
            in case outcome of
                 Returned evs \<Rightarrow>
                   \<lparr>response = evs, attempts = attempt, tried = log @ [proxyUrl], manager = pm'\<rparr>
               | Caught msg \<Rightarrow>
                   retry_loop e targetUrl script (Suc attempt) (Some msg) (log @ [proxyUrl]) pm')
      else \<lparr>response =
              [WriteHead 502 [(''Content-Type'', ''application/json'')],
               End (Json [(''error'', ''Bad Gateway''),
                          (''details'', case lastError of Some msg \<Rightarrow> msg
                                                      | None \<Rightarrow> ''Unknown error'')])],
            attempts = attempt, tried = log, manager = pm\<rparr>)"
  by pat_completeness auto
termination
  by (relation "measure (\<lambda>(e, targetUrl, script, attempt, lastError, log, pm).
                  nat (MAX_RETRIES e - int attempt))") auto

definition requestHandler :: "env \<Rightarrow> request \<Rightarrow> (nat \<Rightarrow> attempt_script) \<Rightarrow> ProxyManager \<Rightarrow> handled" where
  "requestHandler e req script pm =
     (let bad_request =
            \<lparr>response = [WriteHead 400 [(''Content-Type'', ''text/plain'')],
                         End (Plain ''Invalid or missing URL in request line'')],
             attempts = 0, tried = [], manager = pm\<rparr>
      in case URL_parse e (url req) of
           None \<Rightarrow> bad_request
         | Some targetUrl \<Rightarrow>
             if protocol targetUrl \<in> set [''http:'', ''https:'']
             then retry_loop e targetUrl script 0 None [] pm
             else bad_request)"

text \<open>The status codes of the heads written, in order.\<close>

fun heads :: "res_event list \<Rightarrow> nat list" where
  "heads [] = []"
| "heads (WriteHead code hs # evs) = code # heads evs"
| "heads (End b # evs) = heads evs"
| "heads (PipeUpstream # evs) = heads evs"

text \<open>
  The manager as the loop finds it at the start of pass \<open>j\<close>, every earlier pass having
  been run and having failed, and pass \<open>j\<close> itself run on it: the candidate it picks,
  whether it returns or is caught, and the manager it leaves.
\<close>

primrec manager_before :: "env \<Rightarrow> URL \<Rightarrow> (nat \<Rightarrow> attempt_script) \<Rightarrow> ProxyManager \<Rightarrow> nat \<Rightarrow> ProxyManager" where
  "manager_before e targetUrl script pm 0 = pm"
| "manager_before e targetUrl script pm (Suc j) =
     snd (snd (attempt_once e targetUrl (script j) j (manager_before e targetUrl script pm j)))"

definition pass_of :: "env \<Rightarrow> URL \<Rightarrow> (nat \<Rightarrow> attempt_script) \<Rightarrow> ProxyManager \<Rightarrow> nat \<Rightarrow> js_value \<times> pass \<times> ProxyManager" where
  "pass_of e targetUrl script pm j =
     attempt_once e targetUrl (script j) j (manager_before e targetUrl script pm j)"

section \<open>The CONNECT handler\<close>

text \<open>
  One socket to an upstream proxy, with what \<^verbatim>\<open>attemptConnect\<close> attached to it:
  the persistent \<^verbatim>\<open>'error'\<close> listener that destroys it and retries, the one-shot
  \<^verbatim>\<open>'data'\<close> listener (\<open>awaiting_reply\<close>), and, once the reply held 200, the pipes and
  the second pair of \<^verbatim>\<open>'error'\<close> listeners (\<open>piped\<close>).
\<close>

record upstream =
  via :: js_value
  try_no :: nat
  sent :: "string list"
  destroyed :: bool
  awaiting_reply :: bool
  piped :: bool

record tunnel =
  pool :: ProxyManager
  to_client :: "string list"
  client_ended :: bool
  client_destroyed :: bool
  upstreams :: "upstream list"

definition CRLF :: string where
  "CRLF = [CHR 0x0D, CHR 0x0A]"

definition bad_gateway_line :: string where
  "bad_gateway_line = ''HTTP/1.1 502 Bad Gateway'' @ CRLF @ CRLF"

definition established_line :: string where
  "established_line = ''HTTP/1.1 200 Connection Established'' @ CRLF @ CRLF"

definition connectRequest :: "request \<Rightarrow> string" where
  "connectRequest req =
     ''CONNECT '' @ url req @ '' HTTP/1.1'' @ CRLF @
     ''Host: '' @ url req @ CRLF @
     ''Proxy-Connection: Keep-Alive'' @ CRLF @ CRLF"

text \<open>
  \<^verbatim>\<open>clientSocket.write\<close> of a string does not throw; on a socket that was ended or
  destroyed nothing reaches the client.
\<close>

definition client_write :: "string \<Rightarrow> tunnel \<Rightarrow> tunnel" where
  "client_write s t =
     (if client_destroyed t \<or> client_ended t then t else t\<lparr>to_client := to_client t @ [s]\<rparr>)"

text \<open>\<^verbatim>\<open>const [targetHost, targetPortRaw] = req.url.split(':')\<close>; the domain is the host.\<close>

definition targetHost :: "request \<Rightarrow> string" where
  "targetHost req = hd (js_split (CHR '':'') (url req))"

text \<open>
  \<^verbatim>\<open>attemptConnect(attempt)\<close> up to the point where it has dialled and attached its
  listeners. \<open>Inl\<close> is an exception that nothing catches: \<^verbatim>\<open>new URL(proxyUrl)\<close>
  stands outside every \<^verbatim>\<open>try\<close>, and the caller is an event listener.
\<close>

definition attemptConnect :: "env \<Rightarrow> request \<Rightarrow> int \<Rightarrow> nat \<Rightarrow> tunnel \<Rightarrow> string + tunnel" where
  "attemptConnect e req now attempt t =
     (if MAX_RETRIES e \<le> int attempt
      then Inr ((client_write bad_gateway_line t)\<lparr>client_ended := True\<rparr>)
      else (let (proxyUrl, pm1) = pick_proxy e now (targetHost req) attempt (pool t)
            in case new_URL e proxyUrl of
                 None \<Rightarrow> Inl ''Invalid URL''
               | Some parsedProxy \<Rightarrow>
                   Inr (t\<lparr>pool := pm1,
                          upstreams := upstreams t @
                            [\<lparr>via = proxyUrl, try_no = attempt, sent = [], destroyed = False,
                              awaiting_reply = True, piped = False\<rparr>]\<rparr>)))"

definition serverOnConnect :: "env \<Rightarrow> request \<Rightarrow> int \<Rightarrow> ProxyManager \<Rightarrow> string + tunnel" where
  "serverOnConnect e req now pm =
     attemptConnect e req now 0
       \<lparr>pool = pm, to_client = [], client_ended = False, client_destroyed = False,
        upstreams = []\<rparr>"

text \<open>
  The events Node delivers afterwards. The number is the position of the upstream socket
  in the order of dialling. A destroyed socket emits nothing more.
\<close>

datatype socket_event =
    ProxyConnect nat
  | ProxyData nat string
  | ProxyError nat
  | ClientData string
  | ClientError

text \<open>The one-shot \<^verbatim>\<open>'data'\<close> listener, for the socket at position \<open>i\<close>.\<close>

definition on_first_data :: "env \<Rightarrow> request \<Rightarrow> string \<Rightarrow> int \<Rightarrow> nat \<Rightarrow> string \<Rightarrow> tunnel \<Rightarrow> string + tunnel" where
  "on_first_data e req head now i chunk t =
     (let u = upstreams t ! i
      in if js_includes ''200'' chunk
         then Inr ((client_write established_line t)
                     \<lparr>upstreams := (upstreams t)
                        [i := u\<lparr>awaiting_reply := False,
                                sent := sent u @ (if head = [] then [] else [head]),
                                piped := True\<rparr>],
                      pool := setDomainForDomain now (targetHost req) (via u) (pool t)\<rparr>)
         else attemptConnect e req now (try_no u + 1)
                (t\<lparr>upstreams := (upstreams t)
                     [i := u\<lparr>awaiting_reply := False, destroyed := True\<rparr>]\<rparr>))"

text \<open>
  The \<^verbatim>\<open>'error'\<close> listeners of the socket at position \<open>i\<close>, in the order they were
  attached: the first destroys the socket and calls \<^verbatim>\<open>attemptConnect(attempt + 1)\<close>;
  the second, attached when the pipes were wired, destroys the client socket.
\<close>

definition on_proxy_error :: "env \<Rightarrow> request \<Rightarrow> int \<Rightarrow> nat \<Rightarrow> tunnel \<Rightarrow> string + tunnel" where
  "on_proxy_error e req now i t =
     (let u = upstreams t ! i
      in case attemptConnect e req now (try_no u + 1)
                (t\<lparr>upstreams := (upstreams t)[i := u\<lparr>destroyed := True\<rparr>]\<rparr>) of
           Inl msg \<Rightarrow> Inl msg
         | Inr t' \<Rightarrow> Inr (if piped u then t'\<lparr>client_destroyed := True\<rparr> else t'))"

fun deliver :: "env \<Rightarrow> request \<Rightarrow> string \<Rightarrow> int \<Rightarrow> socket_event \<Rightarrow> tunnel \<Rightarrow> string + tunnel" where
  "deliver e req head now (ProxyConnect i) t =
     (if i < length (upstreams t) \<and> \<not> destroyed (upstreams t ! i)
      then Inr (t\<lparr>upstreams := (upstreams t)
                  [i := (upstreams t ! i)
                     \<lparr>sent := sent (upstreams t ! i) @ [connectRequest req]\<rparr>]\<rparr>)
      else Inr t)"
| "deliver e req head now (ProxyData i chunk) t =
     (if i < length (upstreams t) \<and> \<not> destroyed (upstreams t ! i)
      then (if awaiting_reply (upstreams t ! i) then on_first_data e req head now i chunk t
            else if piped (upstreams t ! i) then Inr (client_write chunk t)
            else Inr t)
      else Inr t)"
| "deliver e req head now (ProxyError i) t =
     (if i < length (upstreams t) \<and> \<not> destroyed (upstreams t ! i)
      then on_proxy_error e req now i t
      else Inr t)"
| "deliver e req head now (ClientData chunk) t =
     (if client_destroyed t then Inr t
      else Inr (t\<lparr>upstreams :=
                   map (\<lambda>u. if piped u \<and> \<not> destroyed u then u\<lparr>sent := sent u @ [chunk]\<rparr> else u)
                     (upstreams t)\<rparr>))"
| "deliver e req head now ClientError t =
     (if client_destroyed t then Inr t
      else Inr (t\<lparr>client_destroyed := True,
                  upstreams := map (\<lambda>u. if piped u then u\<lparr>destroyed := True\<rparr> else u)
                                 (upstreams t)\<rparr>))"

text \<open>The events in order, each with the clock at its delivery; an uncaught exception ends the run.\<close>

fun run_events :: "env \<Rightarrow> request \<Rightarrow> string \<Rightarrow> (int \<times> socket_event) list \<Rightarrow> tunnel \<Rightarrow> string + tunnel" where
  "run_events e req head [] t = Inr t"
| "run_events e req head ((now, ev) # evs) t =
     (case deliver e req head now ev t of
        Inl msg \<Rightarrow> Inl msg
      | Inr t' \<Rightarrow> run_events e req head evs t')"

definition connect_session :: "env \<Rightarrow> request \<Rightarrow> string \<Rightarrow> int \<Rightarrow> ProxyManager \<Rightarrow> (int \<times> socket_event) list \<Rightarrow> string + tunnel" where
  "connect_session e req head now pm evs =
     (case serverOnConnect e req now pm of
        Inl msg \<Rightarrow> Inl msg
      | Inr t \<Rightarrow> run_events e req head evs t)"

section \<open>What may happen between a success and a lookup\<close>


section \<open>States of the pool and of a tunnel used in the proofs\<close>

text \<open>
  A pool from which \<^verbatim>\<open>getNextProxy\<close> hands out proxies that \<^verbatim>\<open>new URL\<close> accepts:
  it is not empty, the cursor is within it, and every proxy in it parses.
\<close>

definition pool_usable :: "env \<Rightarrow> ProxyManager \<Rightarrow> bool" where
  "pool_usable e pm =
     (proxies pm \<noteq> [] \<and> index pm < length (proxies pm) \<and>
      list_all (\<lambda>p. URL_parse e p \<noteq> None) (proxies pm))"

text \<open>
  The tunnel right after \<^verbatim>\<open>attemptConnect(i)\<close> has dialled: socket \<open>i\<close> is the last
  one, alive and waiting for its first chunk, every earlier socket is destroyed, and
  nothing has been written to the client.
\<close>

definition dialled :: "env \<Rightarrow> nat \<Rightarrow> tunnel \<Rightarrow> bool" where
  "dialled e i t =
     (length (upstreams t) = Suc i \<and>
      list_all destroyed (take i (upstreams t)) \<and>
      \<not> destroyed (upstreams t ! i) \<and> awaiting_reply (upstreams t ! i) \<and>
      try_no (upstreams t ! i) = i \<and>
      to_client t = [] \<and> \<not> client_ended t \<and> \<not> client_destroyed t \<and>
      pool_usable e (pool t))"

section \<open>A concrete configuration\<close>

text \<open>
  The defaults of \<^verbatim>\<open>server.js\<close>, and the URL parser on the strings used in the
  examples below. It parses the four well-formed URLs and rejects every other string
  that occurs there, as Node does: \<open>https://a:b\<close> has a port that is not a number.
\<close>

definition example_URL :: "string \<Rightarrow> URL option" where
  "example_URL s =
     (if s = ''http://example.com/''
      then Some \<lparr>protocol = ''http:'', hostname = ''example.com'', port = [],
                 href = ''http://example.com/''\<rparr>
      else if s = ''https://1.2.3.4:8080''
      then Some \<lparr>protocol = ''https:'', hostname = ''1.2.3.4'', port = ''8080'',
                 href = ''https://1.2.3.4:8080/''\<rparr>
      else if s = ''https://5.6.7.8:3128''
      then Some \<lparr>protocol = ''https:'', hostname = ''5.6.7.8'', port = ''3128'',
                 href = ''https://5.6.7.8:3128/''\<rparr>
      else if s = ''ftp://example.com/''
      then Some \<lparr>protocol = ''ftp:'', hostname = ''example.com'', port = [],
                 href = ''ftp://example.com/''\<rparr>
      else None)"

definition example_env :: env where
  "example_env =
     \<lparr>MAX_RETRIES = 5, PROXY_DOMAIN_CACHE_TTL = 600000, PROXY_TYPE = ''https'',
      URL_parse = example_URL\<rparr>"

section \<open>Properties of the pool and the cache\<close>

lemma js_split_nonempty: "js_split c s \<noteq> []"
  by (induction s) (auto split: list.splits)

lemma js_split_field:
  "c \<notin> set a \<Longrightarrow> js_split c (a @ c # rest) = a # js_split c rest"
  by (induction a) (auto split: list.splits)

lemma js_split_last_field: "c \<notin> set a \<Longrightarrow> js_split c a = [a]"
  by (induction a) (auto split: list.splits)

lemma filter_Boolean_map_line:
  "filter_Boolean (map (proxy_of_line ptype) ls) =
   map (\<lambda>l. ptype @ ''://'' @ js_split (CHR '':'') l ! 0 @ '':'' @ js_split (CHR '':'') l ! 1)
     (filter (\<lambda>l. 2 \<le> length (js_split (CHR '':'') l)) ls)"
  by (induction ls) (auto simp: filter_Boolean_def proxy_of_line_def List.map_filter_simps Let_def)


lemma refreshProxies_cases:
  "refreshProxies e fetched pm =
     (case fetched of
        Rejected msg \<Rightarrow> pm
      | Fulfilled r \<Rightarrow>
          (case data r of
             Text body \<Rightarrow>
               if status r = 200 \<and> body \<noteq> []
               then pm\<lparr>proxies := parse_proxy_list (PROXY_TYPE e) body\<rparr>
               else pm
           | Parsed b \<Rightarrow> pm))"
  by (simp add: refreshProxies_def refresh_try_def split: settled.splits response_data.splits)

lemma refreshProxies_domainCache [simp]:
  "domainCache (refreshProxies e fetched pm) = domainCache pm"
  by (simp add: refreshProxies_cases split: settled.splits response_data.splits)

lemma refreshProxies_index [simp]:
  "index (refreshProxies e fetched pm) = index pm"
  by (simp add: refreshProxies_cases split: settled.splits response_data.splits)

lemma getNextProxy_domainCache [simp]:
  "domainCache (snd (getNextProxy pm)) = domainCache pm"
  by (simp add: getNextProxy_def)

lemma getNextProxy_empty: "proxies pm = [] \<Longrightarrow> getNextProxy pm = (Null, pm)"
  by (simp add: getNextProxy_def)

lemma getNextProxy_in_range:
  "index pm < length (proxies pm) \<Longrightarrow>
   getNextProxy pm =
     (Str (proxies pm ! index pm), pm\<lparr>index := (index pm + 1) mod length (proxies pm)\<rparr>)"
  by (auto simp add: getNextProxy_def js_index_def)

lemma getNextProxy_keeps_range:
  "proxies pm \<noteq> [] \<Longrightarrow> index (snd (getNextProxy pm)) < length (proxies (snd (getNextProxy pm)))"
  by (simp add: getNextProxy_def)

lemma getNextProxy_stale:
  "proxies pm \<noteq> [] \<Longrightarrow> length (proxies pm) \<le> index pm \<Longrightarrow> fst (getNextProxy pm) = Undefined"
  by (simp add: getNextProxy_def js_index_def)

lemma lookup_live:
  "domainCache pm domain = Some m \<Longrightarrow> now - timestamp m < PROXY_DOMAIN_CACHE_TTL e \<Longrightarrow>
   getProxyForDomain e now domain pm = (proxy m, pm)"
  by (simp add: getProxyForDomain_def)

lemma lookup_expired:
  "domainCache pm domain = Some m \<Longrightarrow> \<not> now - timestamp m < PROXY_DOMAIN_CACHE_TTL e \<Longrightarrow>
   getProxyForDomain e now domain pm = (Null, pm\<lparr>domainCache := (domainCache pm)(domain := None)\<rparr>)"
  by (simp add: getProxyForDomain_def)

lemma lookup_absent:
  "domainCache pm domain = None \<Longrightarrow>
   getProxyForDomain e now domain pm = (Null, pm\<lparr>domainCache := (domainCache pm)(domain := None)\<rparr>)"
  by (simp add: getProxyForDomain_def)

lemma lookup_other_domain:
  "d \<noteq> domain \<Longrightarrow> domainCache (snd (getProxyForDomain e now d pm)) domain = domainCache pm domain"
  by (simp add: getProxyForDomain_def split: option.splits)






text \<open>
  C4. The cursor is wrapped after the read, not before it. A pool of three proxies is
  loaded, two selections move the cursor to 2, and a refresh then replaces the sequence
  with a single proxy: the next \<^verbatim>\<open>getNextProxy\<close> reads \<^verbatim>\<open>proxies[2]\<close> of a
  one-element array and returns \<^verbatim>\<open>undefined\<close>, although the pool is not empty.
\<close>

theorem C4_getNextProxy_stale_cursor:
  "(let pm1 = refreshProxies example_env
                (Fulfilled \<lparr>status = 200,
                   data = Text (''1.2.3.4:8080'' @ [CHR 0x0A] @ ''5.6.7.8:3128'' @ [CHR 0x0A] @
                                ''9.9.9.9:80'' @ [CHR 0x0A])\<rparr>)
                ProxyManager_new;
        pm2 = snd (getNextProxy (snd (getNextProxy pm1)));
        pm3 = refreshProxies example_env
                (Fulfilled \<lparr>status = 200, data = Text (''1.2.3.4:8080'' @ [CHR 0x0A])\<rparr>) pm2
    in proxies pm1 = [''https://1.2.3.4:8080'', ''https://5.6.7.8:3128'', ''https://9.9.9.9:80''] \<and>
       index pm2 = 2 \<and>
       proxies pm3 = [''https://1.2.3.4:8080''] \<and> index pm3 = 2 \<and>
       fst (getNextProxy pm3) = Undefined \<and>
       index (snd (getNextProxy pm3)) = 0)"
  by (simp add: refreshProxies_cases parse_proxy_list_def filter_Boolean_def proxy_of_line_def
      List.map_filter_simps js_trim_def js_whitespace_def getNextProxy_def js_index_def
      ProxyManager_new_def example_env_def Let_def)

text \<open>
  C8. The endpoints a refresh builds from a body are those of its non-blank lines that
  split on the colon into at least two fields, in order, each built from the first two
  fields only; a body that is not empty replaces the pool by them. A line
  \<open>host:port:extra\<close> gives the same endpoint as \<open>host:port\<close>, a line with one field gives
  none, and the body of the spec's example gives the two endpoints with ports 8080 and
  3128.
\<close>

theorem C8_refresh_builds_endpoints:
  "parse_proxy_list ptype body =
     map (\<lambda>l. ptype @ ''://'' @ js_split (CHR '':'') l ! 0 @ '':'' @ js_split (CHR '':'') l ! 1)
       (filter (\<lambda>l. 2 \<le> length (js_split (CHR '':'') l))
          (filter (\<lambda>l. js_trim l \<noteq> []) (js_split (CHR 0x0A) body)))
   \<and> (body \<noteq> [] \<longrightarrow>
        proxies (refreshProxies e (Fulfilled \<lparr>status = 200, data = Text body\<rparr>) pm) =
          parse_proxy_list (PROXY_TYPE e) body)
   \<and> (CHR '':'' \<notin> set host \<and> CHR '':'' \<notin> set portno \<longrightarrow>
        proxy_of_line ptype (host @ '':'' @ portno @ '':'' @ extra) =
          Str (ptype @ ''://'' @ host @ '':'' @ portno) \<and>
        proxy_of_line ptype (host @ '':'' @ portno) = Str (ptype @ ''://'' @ host @ '':'' @ portno) \<and>
        proxy_of_line ptype host = Null)
   \<and> parse_proxy_list ''https''
        (''1.2.3.4:8080:US'' @ [CHR 0x0A] @ ''5.6.7.8:3128:DE'' @ [CHR 0x0A]) =
        [''https://1.2.3.4:8080'', ''https://5.6.7.8:3128'']"
proof -
  have a: "parse_proxy_list ptype body =
     map (\<lambda>l. ptype @ ''://'' @ js_split (CHR '':'') l ! 0 @ '':'' @ js_split (CHR '':'') l ! 1)
       (filter (\<lambda>l. 2 \<le> length (js_split (CHR '':'') l))
          (filter (\<lambda>l. js_trim l \<noteq> []) (js_split (CHR 0x0A) body)))"
    unfolding parse_proxy_list_def by (rule filter_Boolean_map_line)
  have b: "body \<noteq> [] \<longrightarrow>
        proxies (refreshProxies e (Fulfilled \<lparr>status = 200, data = Text body\<rparr>) pm) =
          parse_proxy_list (PROXY_TYPE e) body"
    by (simp add: refreshProxies_cases)
  have c: "proxy_of_line ptype (host @ '':'' @ portno @ '':'' @ extra) =
          Str (ptype @ ''://'' @ host @ '':'' @ portno) \<and>
        proxy_of_line ptype (host @ '':'' @ portno) = Str (ptype @ ''://'' @ host @ '':'' @ portno) \<and>
        proxy_of_line ptype host = Null"
    if "CHR '':'' \<notin> set host" "CHR '':'' \<notin> set portno"
  proof -
    have s1: "js_split (CHR '':'') (host @ CHR '':'' # portno @ CHR '':'' # extra) =
              host # portno # js_split (CHR '':'') extra"
      using that by (simp add: js_split_field)
    have s2: "js_split (CHR '':'') (host @ CHR '':'' # portno) = [host, portno]"
      using that by (simp add: js_split_field js_split_last_field)
    have s3: "js_split (CHR '':'') host = [host]"
      using that by (simp add: js_split_last_field)
    show ?thesis
      using s1 s2 s3 by (simp add: proxy_of_line_def Let_def)
  qed
  have d: "parse_proxy_list ''https''
        (''1.2.3.4:8080:US'' @ [CHR 0x0A] @ ''5.6.7.8:3128:DE'' @ [CHR 0x0A]) =
        [''https://1.2.3.4:8080'', ''https://5.6.7.8:3128'']"
    by (simp add: parse_proxy_list_def filter_Boolean_def proxy_of_line_def
        List.map_filter_simps js_trim_def js_whitespace_def Let_def)
  show ?thesis using a b c d by blast
qed

text \<open>The example body, through \<^verbatim>\<open>refreshProxies\<close> itself.\<close>

theorem C8_refresh_builds_endpoints_witness:
  "proxies (refreshProxies example_env
      (Fulfilled \<lparr>status = 200,
         data = Text (''1.2.3.4:8080:US'' @ [CHR 0x0A] @ ''5.6.7.8:3128:DE'' @ [CHR 0x0A])\<rparr>)
      ProxyManager_new) = [''https://1.2.3.4:8080'', ''https://5.6.7.8:3128'']
   \<and> proxy_of_line ''https'' (''1.2.3.4'' @ '':'' @ ''8080'' @ '':'' @ ''US'') =
       Str ''https://1.2.3.4:8080''"
proof -
  note inst = C8_refresh_builds_endpoints [of "PROXY_TYPE example_env"
      "''1.2.3.4:8080:US'' @ [CHR 0x0A] @ ''5.6.7.8:3128:DE'' @ [CHR 0x0A]" example_env
      ProxyManager_new "''1.2.3.4''" "''8080''" "''US''"]
  have t: "PROXY_TYPE example_env = ''https''"
    by (simp add: example_env_def)
  from inst have "proxies (refreshProxies example_env
      (Fulfilled \<lparr>status = 200,
         data = Text (''1.2.3.4:8080:US'' @ [CHR 0x0A] @ ''5.6.7.8:3128:DE'' @ [CHR 0x0A])\<rparr>)
      ProxyManager_new) =
      parse_proxy_list ''https'' (''1.2.3.4:8080:US'' @ [CHR 0x0A] @ ''5.6.7.8:3128:DE'' @ [CHR 0x0A])"
    by (simp add: t)
  moreover from inst have "parse_proxy_list ''https''
        (''1.2.3.4:8080:US'' @ [CHR 0x0A] @ ''5.6.7.8:3128:DE'' @ [CHR 0x0A]) =
        [''https://1.2.3.4:8080'', ''https://5.6.7.8:3128'']"
    by blast
  moreover from inst have "proxy_of_line ''https'' (''1.2.3.4'' @ '':'' @ ''8080'' @ '':'' @ ''US'') =
       Str ''https://1.2.3.4:8080''"
    by (simp add: t)
  ultimately show ?thesis by simp
qed

text \<open>
  C9. \<^verbatim>\<open>refreshProxies\<close> always returns a manager, never an error. When the fetch is
  rejected, the status is not 200, the body is empty or falsy, or the body is not a string
  (the \<^verbatim>\<open>split\<close> throws inside the \<^verbatim>\<open>try\<close>), the manager is returned as it was.
  Otherwise only the field \<^verbatim>\<open>proxies\<close> changes, assigned once with the whole new list;
  the cursor and the domain cache are untouched.
\<close>

theorem C9_refresh_failure_keeps_pool:
  "refreshProxies e fetched pm =
     (case fetched of
        Rejected msg \<Rightarrow> pm
      | Fulfilled r \<Rightarrow>
          (case data r of
             Text body \<Rightarrow>
               if status r = 200 \<and> body \<noteq> []
               then pm\<lparr>proxies := parse_proxy_list (PROXY_TYPE e) body\<rparr>
               else pm
           | Parsed b \<Rightarrow> pm))
   \<and> (case refresh_try e fetched pm of
        Inl msg \<Rightarrow> refreshProxies e fetched pm = pm
      | Inr pm' \<Rightarrow> refreshProxies e fetched pm = pm' \<and> index pm' = index pm \<and>
                  domainCache pm' = domainCache pm)"
proof (intro conjI)
  show "refreshProxies e fetched pm =
     (case fetched of
        Rejected msg \<Rightarrow> pm
      | Fulfilled r \<Rightarrow>
          (case data r of
             Text body \<Rightarrow>
               if status r = 200 \<and> body \<noteq> []
               then pm\<lparr>proxies := parse_proxy_list (PROXY_TYPE e) body\<rparr>
               else pm
           | Parsed b \<Rightarrow> pm))"
    by (rule refreshProxies_cases)
  show "case refresh_try e fetched pm of
        Inl msg \<Rightarrow> refreshProxies e fetched pm = pm
      | Inr pm' \<Rightarrow> refreshProxies e fetched pm = pm' \<and> index pm' = index pm \<and>
                  domainCache pm' = domainCache pm"
    by (auto simp: refreshProxies_def refresh_try_def split: settled.splits response_data.splits)
qed


section \<open>Properties of requestHandler\<close>

declare retry_loop.simps [simp del]

lemma attempt_once_Returned_iff:
  "attempt_once e t sc a pm = (p, Returned evs, pm') \<Longrightarrow>
   \<exists>r ag. getTunnelAgent e (href t) p = Inr ag \<and> settles sc = Fulfilled r \<and>
          evs = [WriteHead (up_status r) (up_headers r), PipeUpstream]"
  by (auto simp: attempt_once_def Let_def split: prod.splits sum.splits settled.splits)

lemma attempt_once_Caught:
  "attempt_once e t sc a pm = (p, Caught msg, pm') \<Longrightarrow>
   getTunnelAgent e (href t) p = Inl msg \<or>
   ((\<exists>ag. getTunnelAgent e (href t) p = Inr ag) \<and> settles sc = Rejected msg)"
  by (auto simp: attempt_once_def Let_def split: prod.splits sum.splits settled.splits)

lemma retry_loop_passes:
  assumes "cur = manager_before e t script pm a"
  shows "a \<le> attempts (retry_loop e t script a lastError log cur) \<and>
    (\<forall>j. a \<le> j \<longrightarrow> j < attempts (retry_loop e t script a lastError log cur) \<longrightarrow>
         (\<exists>msg. fst (snd (pass_of e t script pm j)) = Caught msg)) \<and>
    ((int (attempts (retry_loop e t script a lastError log cur)) < MAX_RETRIES e \<and>
      (\<exists>evs. fst (snd (pass_of e t script pm (attempts (retry_loop e t script a lastError log cur))))
               = Returned evs \<and>
             response (retry_loop e t script a lastError log cur) = evs) \<and>
      manager (retry_loop e t script a lastError log cur) =
        snd (snd (pass_of e t script pm (attempts (retry_loop e t script a lastError log cur)))) \<and>
      tried (retry_loop e t script a lastError log cur) =
        log @ map (\<lambda>j. fst (pass_of e t script pm j))
                [a..<Suc (attempts (retry_loop e t script a lastError log cur))])
     \<or>
     (MAX_RETRIES e \<le> int (attempts (retry_loop e t script a lastError log cur)) \<and>
      (int a < MAX_RETRIES e \<longrightarrow>
         int (attempts (retry_loop e t script a lastError log cur)) = MAX_RETRIES e) \<and>
      (MAX_RETRIES e \<le> int a \<longrightarrow> attempts (retry_loop e t script a lastError log cur) = a) \<and>
      (\<exists>d. response (retry_loop e t script a lastError log cur) =
             [WriteHead 502 [(''Content-Type'', ''application/json'')],
              End (Json [(''error'', ''Bad Gateway''), (''details'', d)])] \<and>
           (attempts (retry_loop e t script a lastError log cur) = a \<longrightarrow>
              d = (case lastError of Some msg \<Rightarrow> msg | None \<Rightarrow> ''Unknown error'')) \<and>
           (a < attempts (retry_loop e t script a lastError log cur) \<longrightarrow>
              fst (snd (pass_of e t script pm
                     (attempts (retry_loop e t script a lastError log cur) - 1))) = Caught d)) \<and>
      manager (retry_loop e t script a lastError log cur) =
        manager_before e t script pm (attempts (retry_loop e t script a lastError log cur)) \<and>
      tried (retry_loop e t script a lastError log cur) =
        log @ map (\<lambda>j. fst (pass_of e t script pm j))
                [a..<attempts (retry_loop e t script a lastError log cur)]))"
  using assms
proof (induction e t script a lastError log cur rule: retry_loop.induct)
  case (1 e t script a lastError log cur)
  show ?case
  proof (cases "int a < MAX_RETRIES e")
    case False
    then show ?thesis using "1.prems" by (simp add: retry_loop.simps [of e t script a])
  next
    case True
    obtain p outcome pm' where step: "attempt_once e t (script a) a cur = (p, outcome, pm')"
      by (cases "attempt_once e t (script a) a cur") auto
    have pass_a: "pass_of e t script pm a = (p, outcome, pm')"
      using step "1.prems" by (simp add: pass_of_def)
    show ?thesis
    proof (cases outcome)
      case (Returned evs)
      have eq: "retry_loop e t script a lastError log cur =
                \<lparr>response = evs, attempts = a, tried = log @ [p], manager = pm'\<rparr>"
        using True step Returned by (simp add: retry_loop.simps [of e t script a])
      show ?thesis
        unfolding eq using True pass_a Returned by simp
    next
      case (Caught msg)
      have eq: "retry_loop e t script a lastError log cur =
                retry_loop e t script (Suc a) (Some msg) (log @ [p]) pm'"
        using True step Caught by (simp add: retry_loop.simps [of e t script a])
      have nxt: "pm' = manager_before e t script pm (Suc a)"
        using step "1.prems" by simp
      note IH = "1.IH" [OF True refl step [symmetric] refl Caught nxt]
      define out where "out = retry_loop e t script (Suc a) (Some msg) (log @ [p]) pm'"
      have le: "Suc a \<le> attempts out" using IH by (simp add: out_def)
      have failed: "\<exists>m. fst (snd (pass_of e t script pm j)) = Caught m"
        if "a \<le> j" "j < attempts out" for j
      proof (cases "j = a")
        case True
        then show ?thesis using pass_a Caught by simp
      next
        case False
        with that have "Suc a \<le> j" by simp
        with IH that show ?thesis by (simp add: out_def)
      qed
      have upt1: "[a..<Suc (attempts out)] = a # [Suc a..<Suc (attempts out)]"
        using le by (simp add: upt_conv_Cons)
      have upt2: "[a..<attempts out] = a # [Suc a..<attempts out]"
        using le by (simp add: upt_conv_Cons)
      have cand: "fst (pass_of e t script pm a) = p" using pass_a by simp
      note disj = conjunct2 [OF conjunct2 [OF IH [folded out_def]]]
      from disj have concl:
        "(int (attempts out) < MAX_RETRIES e \<and>
          (\<exists>evs. fst (snd (pass_of e t script pm (attempts out))) = Returned evs \<and>
                 response out = evs) \<and>
          manager out = snd (snd (pass_of e t script pm (attempts out))) \<and>
          tried out = log @ map (\<lambda>j. fst (pass_of e t script pm j))
                [a..<Suc (attempts out)])
         \<or>
         (MAX_RETRIES e \<le> int (attempts out) \<and>
          (int a < MAX_RETRIES e \<longrightarrow> int (attempts out) = MAX_RETRIES e) \<and>
          (MAX_RETRIES e \<le> int a \<longrightarrow> attempts out = a) \<and>
          (\<exists>d. response out =
             [WriteHead 502 [(''Content-Type'', ''application/json'')],
              End (Json [(''error'', ''Bad Gateway''), (''details'', d)])] \<and>
           (attempts out = a \<longrightarrow>
              d = (case lastError of Some msg \<Rightarrow> msg | None \<Rightarrow> ''Unknown error'')) \<and>
           (a < attempts out \<longrightarrow>
              fst (snd (pass_of e t script pm (attempts out - 1))) = Caught d)) \<and>
          manager out = manager_before e t script pm (attempts out) \<and>
          tried out = log @ map (\<lambda>j. fst (pass_of e t script pm j))
                [a..<attempts out])"
      proof (elim disjE conjE exE)
        fix evs
        assume "int (attempts out) < MAX_RETRIES e"
          "fst (snd (pass_of e t script pm (attempts out))) = Returned evs"
          "response out = evs"
          "manager out = snd (snd (pass_of e t script pm (attempts out)))"
          "tried out = (log @ [p]) @ map (\<lambda>j. fst (pass_of e t script pm j))
                [Suc a..<Suc (attempts out)]"
        then show ?thesis
          by (simp add: upt1 cand del: upt_Suc)
      next
        fix d
        assume h: "MAX_RETRIES e \<le> int (attempts out)"
          "int (Suc a) < MAX_RETRIES e \<longrightarrow> int (attempts out) = MAX_RETRIES e"
          "MAX_RETRIES e \<le> int (Suc a) \<longrightarrow> attempts out = Suc a"
          "response out =
             [WriteHead 502 [(''Content-Type'', ''application/json'')],
              End (Json [(''error'', ''Bad Gateway''), (''details'', d)])]"
          "attempts out = Suc a \<longrightarrow>
             d = (case Some msg of Some msg \<Rightarrow> msg | None \<Rightarrow> ''Unknown error'')"
          "Suc a < attempts out \<longrightarrow>
              fst (snd (pass_of e t script pm (attempts out - 1))) = Caught d"
          "manager out = manager_before e t script pm (attempts out)"
          "tried out = (log @ [p]) @ map (\<lambda>j. fst (pass_of e t script pm j))
                [Suc a..<attempts out]"
        have m: "int (attempts out) = MAX_RETRIES e"
          using h(1,2,3) True by (cases "int (Suc a) < MAX_RETRIES e") auto
        have last: "fst (snd (pass_of e t script pm (attempts out - 1))) = Caught d"
        proof (cases "attempts out = Suc a")
          case True
          with h(5) pass_a Caught show ?thesis by simp
        next
          case False
          with le have "Suc a < attempts out" by simp
          with h(6) show ?thesis by simp
        qed
        have ne: "attempts out \<noteq> a" using le by simp
        show ?thesis
          using h(1,4,7,8) m last ne True le
          by (simp add: upt2 cand del: upt_Suc)
      qed
      show ?thesis
        unfolding eq out_def [symmetric]
        using le failed concl by (simp only: Suc_leD) blast
    qed
  qed
qed


lemma pass_of_Caught:
  assumes "fst (snd (pass_of e t script pm j)) = Caught msg"
  shows "getTunnelAgent e (href t) (fst (pass_of e t script pm j)) = Inl msg \<or>
         settles (script j) = Rejected msg"
proof -
  obtain p pm' where "pass_of e t script pm j = (p, Caught msg, pm')"
    using assms by (cases "pass_of e t script pm j") auto
  then show ?thesis
    using attempt_once_Caught [of e t "script j" j "manager_before e t script pm j" p msg pm']
    by (auto simp: pass_of_def)
qed

lemma pass_of_Returned:
  assumes "fst (snd (pass_of e t script pm j)) = Returned evs"
  shows "\<exists>r ag. getTunnelAgent e (href t) (fst (pass_of e t script pm j)) = Inr ag \<and>
           settles (script j) = Fulfilled r \<and>
           evs = [WriteHead (up_status r) (up_headers r), PipeUpstream]"
proof -
  obtain p pm' where "pass_of e t script pm j = (p, Returned evs, pm')"
    using assms by (cases "pass_of e t script pm j") auto
  then show ?thesis
    using attempt_once_Returned_iff [of e t "script j" j "manager_before e t script pm j" p evs pm']
    by (auto simp: pass_of_def)
qed

text \<open>
  C10. Every run of \<^verbatim>\<open>requestHandler\<close> writes exactly one status head. It is 400
  when the URL does not parse or its protocol is neither \<^verbatim>\<open>http:\<close> nor
  \<^verbatim>\<open>https:\<close>. Otherwise let \<open>k\<close> be the final value of the counter: every pass before
  \<open>k\<close> was caught, because \<^verbatim>\<open>getTunnelAgent\<close> threw on its candidate or axios
  rejected. Then either \<open>k\<close> is below \<^verbatim>\<open>MAX_RETRIES\<close>, pass \<open>k\<close> got an agent and a
  response, so it is the first pass that succeeded, and the head carries that response's
  status; or \<open>k\<close> is \<^verbatim>\<open>MAX_RETRIES\<close> (0 if that is negative), every pass the loop
  allows was caught, and the head is 502 with the message of the last error.
\<close>

theorem C10_exactly_one_head:
  assumes out: "out = requestHandler e req script pm"
  shows "length (heads (response out)) = 1 \<and>
   (case URL_parse e (url req) of
      None \<Rightarrow> heads (response out) = [400]
    | Some targetUrl \<Rightarrow>
        if protocol targetUrl \<in> set [''http:'', ''https:'']
        then
          (\<forall>j<attempts out.
              \<exists>msg. fst (snd (pass_of e targetUrl script pm j)) = Caught msg \<and>
                    (getTunnelAgent e (href targetUrl) (fst (pass_of e targetUrl script pm j)) = Inl msg \<or>
                     settles (script j) = Rejected msg)) \<and>
          tried out = map (\<lambda>j. fst (pass_of e targetUrl script pm j)) [0..<length (tried out)] \<and>
          ((int (attempts out) < MAX_RETRIES e \<and>
            (\<exists>r ag. getTunnelAgent e (href targetUrl)
                       (fst (pass_of e targetUrl script pm (attempts out))) = Inr ag \<and>
                    settles (script (attempts out)) = Fulfilled r \<and>
                    response out = [WriteHead (up_status r) (up_headers r), PipeUpstream] \<and>
                    heads (response out) = [up_status r]) \<and>
            manager out = snd (snd (pass_of e targetUrl script pm (attempts out))) \<and>
            length (tried out) = attempts out + 1)
           \<or>
           (int (attempts out) = max 0 (MAX_RETRIES e) \<and>
            (\<forall>j. int j < MAX_RETRIES e \<longrightarrow>
                 (\<exists>msg. fst (snd (pass_of e targetUrl script pm j)) = Caught msg)) \<and>
            (\<exists>d. response out =
                   [WriteHead 502 [(''Content-Type'', ''application/json'')],
                    End (Json [(''error'', ''Bad Gateway''), (''details'', d)])] \<and>
                 (attempts out = 0 \<longrightarrow> d = ''Unknown error'') \<and>
                 (0 < attempts out \<longrightarrow>
                    fst (snd (pass_of e targetUrl script pm (attempts out - 1))) = Caught d)) \<and>
            heads (response out) = [502] \<and>
            manager out = manager_before e targetUrl script pm (attempts out) \<and>
            length (tried out) = attempts out))
        else heads (response out) = [400])"
proof (cases "URL_parse e (url req)")
  case None
  then show ?thesis by (simp add: out requestHandler_def)
next
  case (Some targetUrl)
  show ?thesis
  proof (cases "protocol targetUrl \<in> set [''http:'', ''https:'']")
    case False
    with Some show ?thesis by (simp add: out requestHandler_def)
  next
    case True
    have eq: "out = retry_loop e targetUrl script 0 None [] pm"
      using Some True by (simp add: out requestHandler_def)
    have start: "pm = manager_before e targetUrl script pm 0" by simp
    note spec = retry_loop_passes [OF start, of None "[]", folded eq]
    have failed: "\<exists>msg. fst (snd (pass_of e targetUrl script pm j)) = Caught msg"
      if "j < attempts out" for j
      using spec that by simp
    have a: "\<forall>j<attempts out.
              \<exists>msg. fst (snd (pass_of e targetUrl script pm j)) = Caught msg \<and>
                    (getTunnelAgent e (href targetUrl) (fst (pass_of e targetUrl script pm j)) = Inl msg \<or>
                     settles (script j) = Rejected msg)"
      using failed pass_of_Caught by blast
    from conjunct2 [OF conjunct2 [OF spec]]
    have b: "length (heads (response out)) = 1 \<and>
          tried out = map (\<lambda>j. fst (pass_of e targetUrl script pm j)) [0..<length (tried out)] \<and>
          ((int (attempts out) < MAX_RETRIES e \<and>
            (\<exists>r ag. getTunnelAgent e (href targetUrl)
                       (fst (pass_of e targetUrl script pm (attempts out))) = Inr ag \<and>
                    settles (script (attempts out)) = Fulfilled r \<and>
                    response out = [WriteHead (up_status r) (up_headers r), PipeUpstream] \<and>
                    heads (response out) = [up_status r]) \<and>
            manager out = snd (snd (pass_of e targetUrl script pm (attempts out))) \<and>
            length (tried out) = attempts out + 1)
           \<or>
           (int (attempts out) = max 0 (MAX_RETRIES e) \<and>
            (\<forall>j. int j < MAX_RETRIES e \<longrightarrow>
                 (\<exists>msg. fst (snd (pass_of e targetUrl script pm j)) = Caught msg)) \<and>
            (\<exists>d. response out =
                   [WriteHead 502 [(''Content-Type'', ''application/json'')],
                    End (Json [(''error'', ''Bad Gateway''), (''details'', d)])] \<and>
                 (attempts out = 0 \<longrightarrow> d = ''Unknown error'') \<and>
                 (0 < attempts out \<longrightarrow>
                    fst (snd (pass_of e targetUrl script pm (attempts out - 1))) = Caught d)) \<and>
            heads (response out) = [502] \<and>
            manager out = manager_before e targetUrl script pm (attempts out) \<and>
            length (tried out) = attempts out))"
    proof (elim disjE conjE exE)
      fix evs
      assume h: "int (attempts out) < MAX_RETRIES e"
        "fst (snd (pass_of e targetUrl script pm (attempts out))) = Returned evs"
        "response out = evs"
        "manager out = snd (snd (pass_of e targetUrl script pm (attempts out)))"
        "tried out = [] @ map (\<lambda>j. fst (pass_of e targetUrl script pm j)) [0..<Suc (attempts out)]"
      from pass_of_Returned [OF h(2)] obtain r ag where
        r: "getTunnelAgent e (href targetUrl)
              (fst (pass_of e targetUrl script pm (attempts out))) = Inr ag"
           "settles (script (attempts out)) = Fulfilled r"
           "evs = [WriteHead (up_status r) (up_headers r), PipeUpstream]"
        by blast
      have len: "length (tried out) = attempts out + 1"
        by (subst h(5)) simp
      have tr: "tried out = map (\<lambda>j. fst (pass_of e targetUrl script pm j)) [0..<length (tried out)]"
        unfolding len using h(5) by simp
      have hd: "heads (response out) = [up_status r]"
        using h(3) r(3) by simp
      show ?thesis
        using h(1,3,4) r len tr hd by auto
    next
      fix d
      assume h: "MAX_RETRIES e \<le> int (attempts out)"
        "int 0 < MAX_RETRIES e \<longrightarrow> int (attempts out) = MAX_RETRIES e"
        "MAX_RETRIES e \<le> int 0 \<longrightarrow> attempts out = 0"
        "response out =
           [WriteHead 502 [(''Content-Type'', ''application/json'')],
            End (Json [(''error'', ''Bad Gateway''), (''details'', d)])]"
        "attempts out = 0 \<longrightarrow>
           d = (case None of Some msg \<Rightarrow> msg | None \<Rightarrow> ''Unknown error'')"
        "0 < attempts out \<longrightarrow>
           fst (snd (pass_of e targetUrl script pm (attempts out - 1))) = Caught d"
        "manager out = manager_before e targetUrl script pm (attempts out)"
        "tried out = [] @ map (\<lambda>j. fst (pass_of e targetUrl script pm j)) [0..<attempts out]"
      have m: "int (attempts out) = max 0 (MAX_RETRIES e)"
        using h(2,3) by (cases "0 < MAX_RETRIES e") auto
      have all: "\<forall>j. int j < MAX_RETRIES e \<longrightarrow>
                 (\<exists>msg. fst (snd (pass_of e targetUrl script pm j)) = Caught msg)"
      proof (intro allI impI)
        fix j assume "int j < MAX_RETRIES e"
        with h(1) have "j < attempts out" by linarith
        then show "\<exists>msg. fst (snd (pass_of e targetUrl script pm j)) = Caught msg"
          by (rule failed)
      qed
      have len: "length (tried out) = attempts out"
        by (subst h(8)) simp
      have tr: "tried out = map (\<lambda>j. fst (pass_of e targetUrl script pm j)) [0..<length (tried out)]"
        unfolding len using h(8) by simp
      have hd: "heads (response out) = [502]"
        using h(4) by simp
      have dd: "attempts out = 0 \<longrightarrow> d = ''Unknown error''"
        using h(5) by simp
      show ?thesis
        using m all h(4,6,7) dd len tr hd by auto
    qed
    show ?thesis
      using Some True a b by simp
  qed
qed


text \<open>
  Two proxies. When the first pass is answered 200 the response is that head and the
  pipe; when the first pass is rejected and the second answered 204 the one head is 204.
  A request line with an \<^verbatim>\<open>ftp:\<close> URL, which the protocol test turns down: 400.
\<close>

theorem C10_exactly_one_head_witness:
  "response (requestHandler example_env \<lparr>url = ''http://example.com/''\<rparr>
      (\<lambda>i. \<lparr>picked_at = 10, meanwhile = [],
             settles = Fulfilled \<lparr>up_status = 200, up_headers = []\<rparr>, resumed_at = 20\<rparr>)
      \<lparr>proxies = [''https://1.2.3.4:8080'', ''https://5.6.7.8:3128''], index = 0,
       domainCache = Map.empty\<rparr>) = [WriteHead 200 [], PipeUpstream] \<and>
   heads (response (requestHandler example_env \<lparr>url = ''http://example.com/''\<rparr>
      (\<lambda>i. \<lparr>picked_at = 10, meanwhile = [],
             settles = (if i = 1 then Fulfilled \<lparr>up_status = 204, up_headers = []\<rparr>
                        else Rejected ''socket hang up''),
             resumed_at = 20\<rparr>)
      \<lparr>proxies = [''https://1.2.3.4:8080'', ''https://5.6.7.8:3128''], index = 0,
       domainCache = Map.empty\<rparr>)) = [204] \<and>
   heads (response (requestHandler example_env \<lparr>url = ''ftp://example.com/''\<rparr>
      (\<lambda>i. \<lparr>picked_at = 10, meanwhile = [], settles = Rejected ''socket hang up'',
             resumed_at = 20\<rparr>)
      ProxyManager_new)) = [400]"
proof -
  let ?pm = "\<lparr>proxies = [''https://1.2.3.4:8080'', ''https://5.6.7.8:3128''], index = 0,
       domainCache = Map.empty\<rparr>"
  let ?req = "\<lparr>url = ''http://example.com/''\<rparr>"
  let ?s0 = "\<lambda>i::nat. \<lparr>picked_at = 10, meanwhile = [],
             settles = Fulfilled \<lparr>up_status = 200, up_headers = []\<rparr>, resumed_at = 20\<rparr>"
  let ?s1 = "\<lambda>i::nat. \<lparr>picked_at = 10, meanwhile = [],
             settles = (if i = 1 then Fulfilled \<lparr>up_status = 204, up_headers = []\<rparr>
                        else Rejected ''socket hang up''),
             resumed_at = 20\<rparr>"
  have a0: "attempts (requestHandler example_env ?req ?s0 ?pm) = 0"
    by (simp add: requestHandler_def example_env_def example_URL_def retry_loop.simps
        attempt_once_def pick_proxy_def getProxyForDomain_def getNextProxy_def js_index_def
        getTunnelAgent_def new_URL_def catch_attempt_def removeDomainMapping_def
        setDomainForDomain_def)
  have a1: "attempts (requestHandler example_env ?req ?s1 ?pm) = 1"
    by (simp add: requestHandler_def example_env_def example_URL_def retry_loop.simps
        attempt_once_def pick_proxy_def getProxyForDomain_def getNextProxy_def js_index_def
        getTunnelAgent_def new_URL_def catch_attempt_def removeDomainMapping_def
        setDomainForDomain_def)
  from C10_exactly_one_head [where e = example_env and req = ?req and script = ?s0
      and pm = ?pm, OF refl]
  have c0: "response (requestHandler example_env ?req ?s0 ?pm) = [WriteHead 200 [], PipeUpstream]"
    unfolding a0 by (auto simp: example_env_def example_URL_def)
  from C10_exactly_one_head [where e = example_env and req = ?req and script = ?s1
      and pm = ?pm, OF refl]
  have c1: "heads (response (requestHandler example_env ?req ?s1 ?pm)) = [204]"
    unfolding a1 by (auto simp: example_env_def example_URL_def)
  from C10_exactly_one_head [where e = example_env and req = "\<lparr>url = ''ftp://example.com/''\<rparr>"
      and script = "\<lambda>i. \<lparr>picked_at = 10, meanwhile = [], settles = Rejected ''socket hang up'',
             resumed_at = 20\<rparr>" and pm = ProxyManager_new, OF refl]
  have c2: "heads (response (requestHandler example_env \<lparr>url = ''ftp://example.com/''\<rparr>
      (\<lambda>i. \<lparr>picked_at = 10, meanwhile = [], settles = Rejected ''socket hang up'',
             resumed_at = 20\<rparr>)
      ProxyManager_new)) = [400]"
    by (simp add: example_env_def example_URL_def)
  from c0 c1 c2 show ?thesis by simp
qed

lemma pick_proxy_empty_pool:
  "proxies pm = [] \<Longrightarrow> domainCache pm domain = None \<Longrightarrow> pick_proxy e now domain a pm = (Null, pm)"
  by (cases pm) (auto simp: pick_proxy_def getProxyForDomain_def getNextProxy_def fun_upd_idem)

lemma catch_attempt_absent:
  "domainCache pm domain = None \<Longrightarrow> catch_attempt e now domain a p pm = pm"
  by (cases pm) (auto simp: catch_attempt_def getProxyForDomain_def removeDomainMapping_def fun_upd_idem)

lemma attempt_once_empty_pool:
  "proxies pm = [] \<Longrightarrow> domainCache pm (hostname t) = None \<Longrightarrow>
   attempt_once e t sc a pm = (Null, Caught ''Invalid URL'', pm)"
  by (simp add: attempt_once_def pick_proxy_empty_pool getTunnelAgent_def new_URL_def
      catch_attempt_absent split: option.splits)

lemma retry_loop_empty_pool:
  "proxies pm = [] \<Longrightarrow> domainCache pm (hostname t) = None \<Longrightarrow>
   retry_loop e t script a lastError log pm =
     \<lparr>response =
        [WriteHead 502 [(''Content-Type'', ''application/json'')],
         End (Json [(''error'', ''Bad Gateway''),
                    (''details'', if int a < MAX_RETRIES e then ''Invalid URL''
                                  else (case lastError of Some msg \<Rightarrow> msg
                                                        | None \<Rightarrow> ''Unknown error''))])],
      attempts = max a (nat (MAX_RETRIES e)),
      tried = log @ replicate (nat (MAX_RETRIES e) - a) Null,
      manager = pm\<rparr>"
proof (induction e t script a lastError log pm rule: retry_loop.induct)
  case (1 e t script a lastError log pm)
  show ?case
  proof (cases "int a < MAX_RETRIES e")
    case False
    then show ?thesis by (auto simp: retry_loop.simps [of e t script a] max_def)
  next
    case True
    have step: "attempt_once e t (script a) a pm = (Null, Caught ''Invalid URL'', pm)"
      using "1.prems" by (rule attempt_once_empty_pool)
    have eq: "retry_loop e t script a lastError log pm =
              retry_loop e t script (Suc a) (Some ''Invalid URL'') (log @ [Null]) pm"
      using True step by (simp add: retry_loop.simps [of e t script a])
    have n: "nat (MAX_RETRIES e) - a = Suc (nat (MAX_RETRIES e) - Suc a)"
      using True by linarith
    show ?thesis
      unfolding eq "1.IH" [OF True refl step [symmetric] refl refl "1.prems"]
      using True by (auto simp: n max_def replicate_append_same)
  qed
qed

text \<open>
  C1. \<^verbatim>\<open>GET http://example.com/\<close> on a fresh manager (empty pool, empty cache), with
  the default \<^verbatim>\<open>MAX_RETRIES = 5\<close>: the loop has no test for a missing candidate. Each
  of five passes picks \<^verbatim>\<open>null\<close>, fails in \<^verbatim>\<open>new URL(null)\<close> and is counted as an
  attempt; the answer is 502 "Bad Gateway" with the details "Invalid URL", not 500
  "No proxies available".
\<close>

theorem C1_empty_pool_answers_502:
  "requestHandler example_env \<lparr>url = ''http://example.com/''\<rparr> script ProxyManager_new =
     \<lparr>response =
        [WriteHead 502 [(''Content-Type'', ''application/json'')],
         End (Json [(''error'', ''Bad Gateway''), (''details'', ''Invalid URL'')])],
      attempts = 5,
      tried = [Null, Null, Null, Null, Null],
      manager = ProxyManager_new\<rparr>"
proof -
  have "requestHandler example_env \<lparr>url = ''http://example.com/''\<rparr> script ProxyManager_new =
        retry_loop example_env
          \<lparr>protocol = ''http:'', hostname = ''example.com'', port = [],
           href = ''http://example.com/''\<rparr> script 0 None [] ProxyManager_new"
    by (simp add: requestHandler_def example_env_def example_URL_def)
  also have "\<dots> = \<lparr>response =
        [WriteHead 502 [(''Content-Type'', ''application/json'')],
         End (Json [(''error'', ''Bad Gateway''), (''details'', ''Invalid URL'')])],
      attempts = 5,
      tried = [Null, Null, Null, Null, Null],
      manager = ProxyManager_new\<rparr>"
    by (subst retry_loop_empty_pool)
       (simp_all add: ProxyManager_new_def example_env_def numeral_eq_Suc)
  finally show ?thesis .
qed

lemma attempt_once_rejected:
  assumes "pick_proxy e (picked_at sc) (hostname t) a pm = (p, pm1)"
      and "getTunnelAgent e (href t) p = Inr ag"
      and "settles sc = Rejected msg"
  shows "attempt_once e t sc a pm =
           (p, Caught msg,
            catch_attempt e (resumed_at sc) (hostname t) a p (apply_ops e (meanwhile sc) pm1))"
  using assms by (simp add: attempt_once_def)

text \<open>
  C7 (amended). When a pass has failed, the \<^verbatim>\<open>catch\<close> block, run on the manager as
  the other tasks have left it by then, changes it only on attempt 0, and there it
  removes the entry of the domain exactly when the entry has expired at that moment (the
  lookup deletes it) or names the candidate that has just failed, wherever that
  candidate came from; an unexpired entry that names another proxy stays, and so does
  every other domain's entry. On later attempts nothing is looked up or removed.
\<close>

theorem C7_catch_removes_entry:
  "catch_attempt e now domain attempt proxyUrl pm =
     (if attempt = 0 \<and>
         (case domainCache pm domain of
            None \<Rightarrow> True
          | Some m \<Rightarrow> PROXY_DOMAIN_CACHE_TTL e \<le> now - timestamp m \<or> proxy m = proxyUrl)
      then pm\<lparr>domainCache := (domainCache pm)(domain := None)\<rparr>
      else pm)"
  by (auto simp: catch_attempt_def getProxyForDomain_def removeDomainMapping_def
      split: option.splits)

text \<open>An unexpired entry naming another proxy than the one that failed is kept.\<close>

theorem C7_catch_removes_entry_witness:
  "catch_attempt example_env 5000 ''example.com'' 0 (Str ''https://1.2.3.4:8080'')
     (setDomainForDomain 1000 ''example.com'' (Str ''https://5.6.7.8:3128'') ProxyManager_new) =
   setDomainForDomain 1000 ''example.com'' (Str ''https://5.6.7.8:3128'') ProxyManager_new"
  using C7_catch_removes_entry [of example_env 5000 "''example.com''" 0 "Str ''https://1.2.3.4:8080''"
    "setDomainForDomain 1000 ''example.com'' (Str ''https://5.6.7.8:3128'') ProxyManager_new"]
  by (simp add: setDomainForDomain_def example_env_def)

text \<open>
  Two runs of one pass on attempt 0 in which an entry is removed against the claim as
  stated. First: the cache is empty, the candidate comes from rotation, another request
  records the same proxy for the domain while this one awaits, and the failure removes
  that entry. Second, with a TTL of one second: the candidate comes from the cache,
  another request overwrites the entry with a different proxy at 600, and at the failure
  at 5000 that entry has expired, so the lookup in the \<^verbatim>\<open>catch\<close> block deletes it.
\<close>

theorem C7_rotation_candidate_counterexample:
  "fst (getProxyForDomain example_env 1000 ''example.com''
          \<lparr>proxies = [''https://1.2.3.4:8080''], index = 0, domainCache = Map.empty\<rparr>) = Null \<and>
   fst (attempt_once example_env
          \<lparr>protocol = ''http:'', hostname = ''example.com'', port = [],
           href = ''http://example.com/''\<rparr>
          \<lparr>picked_at = 1000,
           meanwhile = [Record 2000 ''example.com'' (Str ''https://1.2.3.4:8080'')],
           settles = Rejected ''timeout of 10000ms exceeded'',
           resumed_at = 11000\<rparr>
          0
          \<lparr>proxies = [''https://1.2.3.4:8080''], index = 0, domainCache = Map.empty\<rparr>)
     = Str ''https://1.2.3.4:8080'' \<and>
   domainCache
     (apply_ops example_env [Record 2000 ''example.com'' (Str ''https://1.2.3.4:8080'')]
        (snd (pick_proxy example_env 1000 ''example.com'' 0
           \<lparr>proxies = [''https://1.2.3.4:8080''], index = 0, domainCache = Map.empty\<rparr>)))
     ''example.com'' = Some \<lparr>proxy = Str ''https://1.2.3.4:8080'', timestamp = 2000\<rparr> \<and>
   domainCache
     (snd (snd (attempt_once example_env
          \<lparr>protocol = ''http:'', hostname = ''example.com'', port = [],
           href = ''http://example.com/''\<rparr>
          \<lparr>picked_at = 1000,
           meanwhile = [Record 2000 ''example.com'' (Str ''https://1.2.3.4:8080'')],
           settles = Rejected ''timeout of 10000ms exceeded'',
           resumed_at = 11000\<rparr>
          0
          \<lparr>proxies = [''https://1.2.3.4:8080''], index = 0, domainCache = Map.empty\<rparr>)))
     ''example.com'' = None \<and>
   fst (attempt_once (example_env\<lparr>PROXY_DOMAIN_CACHE_TTL := 1000\<rparr>)
          \<lparr>protocol = ''http:'', hostname = ''example.com'', port = [],
           href = ''http://example.com/''\<rparr>
          \<lparr>picked_at = 500,
           meanwhile = [Record 600 ''example.com'' (Str ''https://5.6.7.8:3128'')],
           settles = Rejected ''timeout of 10000ms exceeded'',
           resumed_at = 5000\<rparr>
          0
          \<lparr>proxies = [''https://1.2.3.4:8080'', ''https://5.6.7.8:3128''], index = 0,
           domainCache = [''example.com'' \<mapsto>
                            \<lparr>proxy = Str ''https://1.2.3.4:8080'', timestamp = 0\<rparr>]\<rparr>)
     = Str ''https://1.2.3.4:8080'' \<and>
   domainCache
     (apply_ops (example_env\<lparr>PROXY_DOMAIN_CACHE_TTL := 1000\<rparr>)
        [Record 600 ''example.com'' (Str ''https://5.6.7.8:3128'')]
        (snd (pick_proxy (example_env\<lparr>PROXY_DOMAIN_CACHE_TTL := 1000\<rparr>) 500 ''example.com'' 0
           \<lparr>proxies = [''https://1.2.3.4:8080'', ''https://5.6.7.8:3128''], index = 0,
            domainCache = [''example.com'' \<mapsto>
                             \<lparr>proxy = Str ''https://1.2.3.4:8080'', timestamp = 0\<rparr>]\<rparr>)))
     ''example.com'' = Some \<lparr>proxy = Str ''https://5.6.7.8:3128'', timestamp = 600\<rparr> \<and>
   domainCache
     (snd (snd (attempt_once (example_env\<lparr>PROXY_DOMAIN_CACHE_TTL := 1000\<rparr>)
          \<lparr>protocol = ''http:'', hostname = ''example.com'', port = [],
           href = ''http://example.com/''\<rparr>
          \<lparr>picked_at = 500,
           meanwhile = [Record 600 ''example.com'' (Str ''https://5.6.7.8:3128'')],
           settles = Rejected ''timeout of 10000ms exceeded'',
           resumed_at = 5000\<rparr>
          0
          \<lparr>proxies = [''https://1.2.3.4:8080'', ''https://5.6.7.8:3128''], index = 0,
           domainCache = [''example.com'' \<mapsto>
                            \<lparr>proxy = Str ''https://1.2.3.4:8080'', timestamp = 0\<rparr>]\<rparr>)))
     ''example.com'' = None"
  by (simp add: attempt_once_def pick_proxy_def getProxyForDomain_def getNextProxy_def
      js_index_def getTunnelAgent_def new_URL_def example_env_def example_URL_def
      setDomainForDomain_def catch_attempt_def removeDomainMapping_def)


section \<open>Properties of the CONNECT handler\<close>

text \<open>
  C2. \<^verbatim>\<open>CONNECT example.com:443\<close> on a fresh manager (empty pool, empty cache):
  \<^verbatim>\<open>attemptConnect(0)\<close> picks \<^verbatim>\<open>null\<close> and calls \<^verbatim>\<open>new URL(null)\<close> outside
  every \<^verbatim>\<open>try\<close>. The \<^verbatim>\<open>TypeError\<close> leaves the listener: nothing is written to the
  client socket, it is not closed, and no later event is handled.
\<close>

theorem C2_connect_empty_pool_throws:
  "serverOnConnect example_env \<lparr>url = ''example.com:443''\<rparr> now ProxyManager_new = Inl ''Invalid URL'' \<and>
   connect_session example_env \<lparr>url = ''example.com:443''\<rparr> head now ProxyManager_new evs =
     Inl ''Invalid URL''"
  by (simp add: connect_session_def serverOnConnect_def attemptConnect_def pick_proxy_def
      getProxyForDomain_def getNextProxy_def new_URL_def ProxyManager_new_def example_env_def)

text \<open>
  C3. The first proxy answers 200, the tunnel is established (status line written, pipes
  wired, affinity recorded), and then the proxy socket emits an error. The listener
  attached before the handshake is still attached: it calls \<^verbatim>\<open>attemptConnect(1)\<close>,
  which picks the next proxy and dials it. The final state holds a second, live upstream
  socket on attempt 1, beside the two destroyed ends of the tunnel.
\<close>

theorem C3_established_proxy_error_redials:
  "connect_session example_env \<lparr>url = ''example.com:443''\<rparr> [] 1000
     \<lparr>proxies = [''https://1.2.3.4:8080'', ''https://5.6.7.8:3128''], index = 0,
      domainCache = Map.empty\<rparr>
     [(1010, ProxyConnect 0),
      (1020, ProxyData 0 (''HTTP/1.1 200 Connection Established'' @ CRLF @ CRLF)),
      (9000, ProxyError 0)] =
   Inr \<lparr>pool = \<lparr>proxies = [''https://1.2.3.4:8080'', ''https://5.6.7.8:3128''], index = 0,
               domainCache = [''example.com'' \<mapsto>
                                \<lparr>proxy = Str ''https://1.2.3.4:8080'', timestamp = 1020\<rparr>]\<rparr>,
        to_client = [established_line],
        client_ended = False,
        client_destroyed = True,
        upstreams =
          [\<lparr>via = Str ''https://1.2.3.4:8080'', try_no = 0,
            sent = [connectRequest \<lparr>url = ''example.com:443''\<rparr>],
            destroyed = True, awaiting_reply = False, piped = True\<rparr>,
           \<lparr>via = Str ''https://5.6.7.8:3128'', try_no = 1, sent = [],
            destroyed = False, awaiting_reply = True, piped = False\<rparr>]\<rparr>"
  by (simp add: connect_session_def serverOnConnect_def attemptConnect_def pick_proxy_def
      getProxyForDomain_def getNextProxy_def js_index_def new_URL_def example_env_def
      example_URL_def on_first_data_def on_proxy_error_def client_write_def
      setDomainForDomain_def targetHost_def CRLF_def established_line_def Let_def)

text \<open>An error on the client side destroys the client socket and every piped upstream socket, and dials nothing.\<close>

lemma client_error_after_established:
  "deliver e req head now ClientError
     (t\<lparr>client_destroyed := False\<rparr>) =
   Inr (t\<lparr>client_destroyed := True,
          upstreams := map (\<lambda>u. if piped u then u\<lparr>destroyed := True\<rparr> else u) (upstreams t)\<rparr>)"
  by simp


lemma getNextProxy_usable:
  assumes "pool_usable e pm"
  shows "\<exists>p pm'. getNextProxy pm = (Str p, pm') \<and> URL_parse e p \<noteq> None \<and>
           pool_usable e pm' \<and> domainCache pm' = domainCache pm"
proof -
  from assms have ne: "proxies pm \<noteq> []" and lt: "index pm < length (proxies pm)"
    and ok: "list_all (\<lambda>p. URL_parse e p \<noteq> None) (proxies pm)"
    by (simp_all add: pool_usable_def)
  from ok lt have "URL_parse e (proxies pm ! index pm) \<noteq> None"
    by (simp add: list_all_length)
  moreover have "getNextProxy pm =
      (Str (proxies pm ! index pm), pm\<lparr>index := (index pm + 1) mod length (proxies pm)\<rparr>)"
    using lt by (rule getNextProxy_in_range)
  moreover have "pool_usable e (pm\<lparr>index := (index pm + 1) mod length (proxies pm)\<rparr>)"
    using ne ok by (simp add: pool_usable_def)
  ultimately show ?thesis by simp
qed

lemma getProxyForDomain_pool:
  "proxies (snd (getProxyForDomain e now d pm)) = proxies pm \<and>
   index (snd (getProxyForDomain e now d pm)) = index pm \<and>
   domainCache (snd (getProxyForDomain e now d pm)) \<subseteq>\<^sub>m domainCache pm"
  by (auto simp: getProxyForDomain_def map_le_def split: option.splits)

lemma getProxyForDomain_value:
  "fst (getProxyForDomain e now d pm) = Null \<or>
   (\<exists>m. domainCache pm d = Some m \<and> fst (getProxyForDomain e now d pm) = proxy m)"
  by (auto simp: getProxyForDomain_def split: option.splits)

lemma pick_proxy_usable:
  assumes "pool_usable e pm"
      and "\<forall>m. domainCache pm d = Some m \<longrightarrow> js_truthy (proxy m) \<longrightarrow> new_URL e (proxy m) \<noteq> None"
  shows "\<exists>v pm'. pick_proxy e now d a pm = (v, pm') \<and> new_URL e v \<noteq> None \<and>
           pool_usable e pm' \<and> domainCache pm' \<subseteq>\<^sub>m domainCache pm"
proof (cases "a = 0")
  case False
  with getNextProxy_usable [OF assms(1)] show ?thesis
    by (auto simp: pick_proxy_def new_URL_def)
next
  case True
  obtain cached pm1 where look: "getProxyForDomain e now d pm = (cached, pm1)"
    by (cases "getProxyForDomain e now d pm") auto
  have pm1: "proxies pm1 = proxies pm" "index pm1 = index pm"
    "domainCache pm1 \<subseteq>\<^sub>m domainCache pm"
    using getProxyForDomain_pool [of e now d pm] look by simp_all
  then have usable1: "pool_usable e pm1"
    using assms(1) by (simp add: pool_usable_def)
  show ?thesis
  proof (cases "js_truthy cached")
    case True
    then have "cached \<noteq> Null" by auto
    with getProxyForDomain_value [of e now d pm] look
    obtain m where "domainCache pm d = Some m" "cached = proxy m" by auto
    with assms(2) True have "new_URL e cached \<noteq> None" by simp
    with \<open>a = 0\<close> look True usable1 pm1 show ?thesis
      by (simp add: pick_proxy_def)
  next
    case False
    from getNextProxy_usable [OF usable1]
    obtain p pm' where nxt: "getNextProxy pm1 = (Str p, pm')" "URL_parse e p \<noteq> None"
      "pool_usable e pm'" "domainCache pm' = domainCache pm1" by blast
    with \<open>a = 0\<close> look False pm1 show ?thesis
      by (simp add: pick_proxy_def new_URL_def)
  qed
qed

lemma pick_proxy_later:
  assumes "pool_usable e pm" and "0 < a"
  shows "\<exists>v pm'. pick_proxy e now d a pm = (v, pm') \<and> new_URL e v \<noteq> None \<and>
           pool_usable e pm' \<and> domainCache pm' = domainCache pm"
  using getNextProxy_usable [OF assms(1)] assms(2)
  by (auto simp: pick_proxy_def new_URL_def)

lemma run_events_append:
  "run_events e req head (xs @ ys) t =
     (case run_events e req head xs t of
        Inl msg \<Rightarrow> Inl msg
      | Inr t' \<Rightarrow> run_events e req head ys t')"
  by (induction xs arbitrary: t) (auto split: sum.splits)

lemma refused_pass:
  assumes d: "dialled e i t" and c: "\<not> js_includes ''200'' chunk"
  shows "run_events e req head [(tm, ProxyConnect i), (tm', ProxyData i chunk)] t =
         attemptConnect e req tm' (Suc i)
           (t\<lparr>upstreams := (upstreams t)
                [i := (upstreams t ! i)
                   \<lparr>sent := sent (upstreams t ! i) @ [connectRequest req],
                    awaiting_reply := False, destroyed := True\<rparr>]\<rparr>)"
  using d c by (simp add: dialled_def on_first_data_def Let_def split: sum.splits)

lemma list_all_update_last:
  "length xs = Suc i \<Longrightarrow> list_all P (take i xs) \<Longrightarrow> P x \<Longrightarrow> list_all P (xs[i := x])"
  by (simp add: upd_conv_take_nth_drop)

lemma attemptConnect_last:
  assumes d: "dialled e i t" and m: "MAX_RETRIES e \<le> int (Suc i)"
  shows "\<exists>t'. attemptConnect e req now (Suc i)
           (t\<lparr>upstreams := (upstreams t)
                [i := (upstreams t ! i)
                   \<lparr>sent := s, awaiting_reply := False, destroyed := True\<rparr>]\<rparr>) = Inr t' \<and>
          to_client t' = [bad_gateway_line] \<and> client_ended t' \<and> \<not> client_destroyed t' \<and>
          domainCache (pool t') = domainCache (pool t) \<and>
          length (upstreams t') = Suc i \<and> list_all destroyed (upstreams t')"
proof -
  from d have len: "length (upstreams t) = Suc i" by (simp add: dialled_def)
  have "list_all destroyed ((upstreams t)
          [i := (upstreams t ! i)\<lparr>sent := s, awaiting_reply := False, destroyed := True\<rparr>])"
    using d len by (intro list_all_update_last) (simp_all add: dialled_def)
  then show ?thesis
    using d m len by (simp add: attemptConnect_def client_write_def dialled_def)
qed

lemma attemptConnect_next:
  assumes d: "dialled e i t" and m: "int (Suc i) < MAX_RETRIES e"
  shows "\<exists>t'. attemptConnect e req now (Suc i)
           (t\<lparr>upstreams := (upstreams t)
                [i := (upstreams t ! i)
                   \<lparr>sent := s, awaiting_reply := False, destroyed := True\<rparr>]\<rparr>) = Inr t' \<and>
          dialled e (Suc i) t' \<and> domainCache (pool t') = domainCache (pool t)"
proof -
  from d have len: "length (upstreams t) = Suc i" and usable: "pool_usable e (pool t)"
    by (simp_all add: dialled_def)
  from pick_proxy_later [where a = "Suc i" and now = now and d = "targetHost req", OF usable]
  obtain v pm' where pick: "pick_proxy e now (targetHost req) (Suc i) (pool t) = (v, pm')"
    "new_URL e v \<noteq> None" "pool_usable e pm'" "domainCache pm' = domainCache (pool t)"
    by auto
  have all: "list_all destroyed ((upstreams t)
          [i := (upstreams t ! i)\<lparr>sent := s, awaiting_reply := False, destroyed := True\<rparr>])"
    using d len by (intro list_all_update_last) (simp_all add: dialled_def)
  show ?thesis
    using d m len pick all
    by (auto simp: attemptConnect_def dialled_def nth_append)
qed

lemma refused_run:
  assumes "\<forall>j<nat (MAX_RETRIES e). \<not> js_includes ''200'' (chunk j)"
  shows "dialled e i t \<Longrightarrow> int i < MAX_RETRIES e \<Longrightarrow>
         \<exists>t'. run_events e req head
                 (concat (map (\<lambda>j. [(tm j, ProxyConnect j), (tm j, ProxyData j (chunk j))])
                    [i..<nat (MAX_RETRIES e)])) t = Inr t' \<and>
              to_client t' = [bad_gateway_line] \<and> client_ended t' \<and> \<not> client_destroyed t' \<and>
              domainCache (pool t') = domainCache (pool t) \<and>
              length (upstreams t') = nat (MAX_RETRIES e) \<and> list_all destroyed (upstreams t')"
proof (induction "nat (MAX_RETRIES e) - i" arbitrary: i t)
  case 0
  then show ?case by linarith
next
  case (Suc k)
  have lt: "i < nat (MAX_RETRIES e)" using Suc.prems(2) by linarith
  have split: "concat (map (\<lambda>j. [(tm j, ProxyConnect j), (tm j, ProxyData j (chunk j))])
                    [i..<nat (MAX_RETRIES e)]) =
               [(tm i, ProxyConnect i), (tm i, ProxyData i (chunk i))] @
               concat (map (\<lambda>j. [(tm j, ProxyConnect j), (tm j, ProxyData j (chunk j))])
                    [Suc i..<nat (MAX_RETRIES e)])"
    using lt by (simp add: upt_conv_Cons)
  have c: "\<not> js_includes ''200'' (chunk i)" using assms lt by simp
  note pass = refused_pass [where req = req and head = head and tm = "tm i" and tm' = "tm i",
      OF Suc.prems(1) c]
  have run: "run_events e req head
                 (concat (map (\<lambda>j. [(tm j, ProxyConnect j), (tm j, ProxyData j (chunk j))])
                    [i..<nat (MAX_RETRIES e)])) t =
             (case attemptConnect e req (tm i) (Suc i)
                     (t\<lparr>upstreams := (upstreams t)
                          [i := (upstreams t ! i)
                             \<lparr>sent := sent (upstreams t ! i) @ [connectRequest req],
                              awaiting_reply := False, destroyed := True\<rparr>]\<rparr>) of
                Inl msg \<Rightarrow> Inl msg
              | Inr t' \<Rightarrow>
                  run_events e req head
                    (concat (map (\<lambda>j. [(tm j, ProxyConnect j), (tm j, ProxyData j (chunk j))])
                       [Suc i..<nat (MAX_RETRIES e)])) t')"
    by (simp only: split run_events_append pass)
  show ?case
  proof (cases "int (Suc i) < MAX_RETRIES e")
    case False
    then have m: "MAX_RETRIES e \<le> int (Suc i)" by simp
    with lt have n: "nat (MAX_RETRIES e) = Suc i" by linarith
    from attemptConnect_last [where req = req and now = "tm i" and
        s = "sent (upstreams t ! i) @ [connectRequest req]", OF Suc.prems(1) m]
    obtain t' where "attemptConnect e req (tm i) (Suc i)
           (t\<lparr>upstreams := (upstreams t)
                [i := (upstreams t ! i)
                   \<lparr>sent := sent (upstreams t ! i) @ [connectRequest req],
                    awaiting_reply := False, destroyed := True\<rparr>]\<rparr>) = Inr t'"
      "to_client t' = [bad_gateway_line]" "client_ended t'" "\<not> client_destroyed t'"
      "domainCache (pool t') = domainCache (pool t)"
      "length (upstreams t') = Suc i" "list_all destroyed (upstreams t')"
      by blast
    then show ?thesis
      unfolding run by (simp add: n)
  next
    case True
    from attemptConnect_next [where req = req and now = "tm i" and
        s = "sent (upstreams t ! i) @ [connectRequest req]", OF Suc.prems(1) True]
    obtain t1 where t1: "attemptConnect e req (tm i) (Suc i)
           (t\<lparr>upstreams := (upstreams t)
                [i := (upstreams t ! i)
                   \<lparr>sent := sent (upstreams t ! i) @ [connectRequest req],
                    awaiting_reply := False, destroyed := True\<rparr>]\<rparr>) = Inr t1"
      "dialled e (Suc i) t1" "domainCache (pool t1) = domainCache (pool t)"
      by blast
    have k: "k = nat (MAX_RETRIES e) - Suc i" using Suc.hyps(2) by linarith
    from Suc.hyps(1) [OF k t1(2) True] t1(3)
    show ?thesis
      unfolding run by (simp add: t1(1))
  qed
qed


text \<open>
  Where the candidates are sound the refusals do end as the spec says. On a usable pool
  (and, if the cache holds a proxy for the host, one that parses), where every dialled
  proxy connects and its first chunk lacks "200": after \<^verbatim>\<open>MAX_RETRIES\<close> attempts the
  handler has returned without an exception, the client has received the 502 status line
  and nothing else, its socket is ended, every upstream socket is destroyed, and the
  domain cache holds no entry that it did not hold before.
\<close>

lemma refused_handshakes_on_usable_pool:
  assumes refused: "\<forall>j<nat (MAX_RETRIES e). \<not> js_includes ''200'' (chunk j)"
      and usable: "pool_usable e pm"
      and cached: "\<forall>m. domainCache pm (targetHost req) = Some m \<longrightarrow>
                     js_truthy (proxy m) \<longrightarrow> new_URL e (proxy m) \<noteq> None"
  shows "\<exists>t. connect_session e req head now pm
                (concat (map (\<lambda>j. [(tm j, ProxyConnect j), (tm j, ProxyData j (chunk j))])
                   [0..<nat (MAX_RETRIES e)])) = Inr t \<and>
             to_client t = [bad_gateway_line] \<and> client_ended t \<and> \<not> client_destroyed t \<and>
             domainCache (pool t) \<subseteq>\<^sub>m domainCache pm \<and>
             (domainCache pm (targetHost req) = None \<longrightarrow>
                domainCache (pool t) (targetHost req) = None) \<and>
             length (upstreams t) = nat (MAX_RETRIES e) \<and>
             list_all destroyed (upstreams t)"
proof (cases "0 < MAX_RETRIES e")
  case False
  then show ?thesis
    by (simp add: connect_session_def serverOnConnect_def attemptConnect_def client_write_def)
next
  case True
  from pick_proxy_usable [where a = 0 and now = now, OF usable cached]
  obtain v pm' where pick: "pick_proxy e now (targetHost req) 0 pm = (v, pm')"
    "new_URL e v \<noteq> None" "pool_usable e pm'" "domainCache pm' \<subseteq>\<^sub>m domainCache pm"
    by auto
  define t0 where "t0 = \<lparr>pool = pm', to_client = [], client_ended = False,
      client_destroyed = False,
      upstreams = [\<lparr>via = v, try_no = 0, sent = [], destroyed = False,
                    awaiting_reply = True, piped = False\<rparr>]\<rparr>"
  have start: "serverOnConnect e req now pm = Inr t0"
    using True pick by (auto simp: serverOnConnect_def attemptConnect_def t0_def)
  have d0: "dialled e 0 t0"
    using pick by (simp add: dialled_def t0_def)
  have i0: "int 0 < MAX_RETRIES e" using True by simp
  from refused_run [OF refused d0 i0, of req head tm]
  obtain t where t: "run_events e req head
                 (concat (map (\<lambda>j. [(tm j, ProxyConnect j), (tm j, ProxyData j (chunk j))])
                    [0..<nat (MAX_RETRIES e)])) t0 = Inr t"
    "to_client t = [bad_gateway_line]" "client_ended t" "\<not> client_destroyed t"
    "domainCache (pool t) = domainCache (pool t0)"
    "length (upstreams t) = nat (MAX_RETRIES e)" "list_all destroyed (upstreams t)"
    by blast
  have le: "domainCache (pool t) \<subseteq>\<^sub>m domainCache pm"
    using t(5) pick(4) by (simp add: t0_def)
  have none: "domainCache pm (targetHost req) = None \<longrightarrow>
                domainCache (pool t) (targetHost req) = None"
    using le by (auto simp: map_le_def dom_def)
  show ?thesis
    using start t le none by (simp add: connect_session_def)
qed

text \<open>Two proxies that both answer 407, five attempts.\<close>

lemma refused_handshakes_example:
  "\<exists>t. connect_session example_env \<lparr>url = ''example.com:443''\<rparr> [] 1000
          \<lparr>proxies = [''https://1.2.3.4:8080'', ''https://5.6.7.8:3128''], index = 0,
           domainCache = Map.empty\<rparr>
          (concat (map (\<lambda>j. [(1000 + int j, ProxyConnect j),
                             (1000 + int j,
                              ProxyData j ''HTTP/1.1 407 Proxy Authentication Required'')])
             [0..<nat (MAX_RETRIES example_env)])) = Inr t \<and>
       to_client t = [bad_gateway_line] \<and> client_ended t \<and>
       domainCache (pool t) ''example.com'' = None"
  using refused_handshakes_on_usable_pool [of example_env
      "\<lambda>j. ''HTTP/1.1 407 Proxy Authentication Required''"
      "\<lparr>proxies = [''https://1.2.3.4:8080'', ''https://5.6.7.8:3128''], index = 0,
        domainCache = Map.empty\<rparr>"
      "\<lparr>url = ''example.com:443''\<rparr>" "[]" 1000 "\<lambda>j. 1000 + int j"]
  by (auto simp: pool_usable_def example_env_def example_URL_def targetHost_def)

text \<open>
  C5. A refusal is followed by \<^verbatim>\<open>attemptConnect(attempt + 1)\<close>, called from the
  \<^verbatim>\<open>'data'\<close> listener, and there \<^verbatim>\<open>new URL(proxyUrl)\<close> stands outside every
  \<^verbatim>\<open>try\<close>. First run: the list holds the line \<open>a:b\<close>, so the pool holds
  \<open>https://a:b\<close>, which the URL parser rejects for its port. The first proxy is dialled
  and answers 407; the next candidate throws. Second run: the cache names a proxy for
  the host, and the cursor is past the end of a pool that a refresh has shortened. The
  cached proxy answers 407; the next candidate is \<^verbatim>\<open>undefined\<close> and throws. In both
  the only chunk received lacks "200", no 502 line is written, the client socket is not
  ended, and the exception leaves the listener.
\<close>

theorem C5_refused_then_uncaught_throw:
  "proxies (refreshProxies example_env
      (Fulfilled \<lparr>status = 200,
         data = Text (''1.2.3.4:8080:US'' @ [CHR 0x0A] @ ''a:b'' @ [CHR 0x0A])\<rparr>)
      ProxyManager_new) = [''https://1.2.3.4:8080'', ''https://a:b''] \<and>
   connect_session example_env \<lparr>url = ''example.com:443''\<rparr> [] 1000
     \<lparr>proxies = [''https://1.2.3.4:8080'', ''https://a:b''], index = 0,
      domainCache = Map.empty\<rparr>
     [(1010, ProxyConnect 0)] =
   Inr \<lparr>pool = \<lparr>proxies = [''https://1.2.3.4:8080'', ''https://a:b''], index = 1,
               domainCache = Map.empty\<rparr>,
        to_client = [], client_ended = False, client_destroyed = False,
        upstreams =
          [\<lparr>via = Str ''https://1.2.3.4:8080'', try_no = 0,
            sent = [connectRequest \<lparr>url = ''example.com:443''\<rparr>],
            destroyed = False, awaiting_reply = True, piped = False\<rparr>]\<rparr> \<and>
   connect_session example_env \<lparr>url = ''example.com:443''\<rparr> [] 1000
     \<lparr>proxies = [''https://1.2.3.4:8080'', ''https://a:b''], index = 0,
      domainCache = Map.empty\<rparr>
     [(1010, ProxyConnect 0),
      (1020, ProxyData 0 ''HTTP/1.1 407 Proxy Authentication Required'')] =
   Inl ''Invalid URL'' \<and>
   connect_session example_env \<lparr>url = ''example.com:443''\<rparr> [] 1000
     \<lparr>proxies = [''https://1.2.3.4:8080''], index = 2,
      domainCache = [''example.com'' \<mapsto>
                       \<lparr>proxy = Str ''https://1.2.3.4:8080'', timestamp = 500\<rparr>]\<rparr>
     [(1010, ProxyConnect 0),
      (1020, ProxyData 0 ''HTTP/1.1 407 Proxy Authentication Required'')] =
   Inl ''Invalid URL''"
  by (simp add: connect_session_def serverOnConnect_def attemptConnect_def pick_proxy_def
      getProxyForDomain_def getNextProxy_def js_index_def new_URL_def example_env_def
      example_URL_def on_first_data_def client_write_def targetHost_def Let_def
      refreshProxies_cases parse_proxy_list_def filter_Boolean_def proxy_of_line_def
      List.map_filter_simps js_trim_def js_whitespace_def ProxyManager_new_def)

end
